theory Spec2Isabelle
  imports Complex_Main
begin

section \<open>Number representation\<close>

text \<open>
  The program computes with C++ \<^verbatim>\<open>double\<close> and \<^verbatim>\<open>int\<close>.

  \<^item> \<^verbatim>\<open>double\<close> is modelled by \<^typ>\<open>real\<close>: every arithmetic operation is the exact
    one. Rounding, overflow to infinity and NaN are outside the model; in particular
    \<^verbatim>\<open>1.0 / r2\<close> at \<^verbatim>\<open>r2 == 0.0\<close> is infinite in the program but \<open>0\<close> in HOL, so
    the statements below that evaluate \<open>lj_potential\<close> or \<open>lj_force\<close> at a variable
    \<open>r2\<close> exclude \<open>r2 = 0\<close>. \<^verbatim>\<open>std::pow(nparticles, 1.0/3.0)\<close> is the real cube root.
    The statements below say which operations the program applies to which values.
    Whether two computed numbers are exactly equal, whether a computed sum is exactly
    zero, or whether a computed coordinate stays strictly below a bound it can be
    rounded onto, is decided by the rounding of \<^verbatim>\<open>double\<close> and is not stated here.
  \<^item> \<^verbatim>\<open>int\<close> is modelled by \<^typ>\<open>int\<close>; loop counters that run from \<open>0\<close> upwards are
    \<^typ>\<open>nat\<close>. The only integer arithmetic of the program is on particle indices
    and on \<^verbatim>\<open>particles_per_side\<close>, which stay far below \<open>2^31\<close> (lemma
    \<open>particles_per_side_no_overflow\<close>).
  \<^item> \<^verbatim>\<open>std::array<double, 3>\<close> is a triple, \<^verbatim>\<open>a[0]\<close>, \<^verbatim>\<open>a[1]\<close>, \<^verbatim>\<open>a[2]\<close> being the
    selectors \<open>vx\<close>, \<open>vy\<close>, \<open>vz\<close>; \<^verbatim>\<open>std::vector\<close> is a list. \<^verbatim>\<open>operator[]\<close> out of
    range is undefined behaviour in C++; the statements below are about vectors that
    hold \<^verbatim>\<open>nparticles\<close> elements, as every vector the constructor builds does.
\<close>

type_synonym vec3 = "real \<times> real \<times> real"

definition vx :: "vec3 \<Rightarrow> real" where
  "vx v = fst v"

definition vy :: "vec3 \<Rightarrow> real" where
  "vy v = fst (snd v)"

definition vz :: "vec3 \<Rightarrow> real" where
  "vz v = snd (snd v)"

section \<open>The plugin: \<^verbatim>\<open>plugin/src/plugin.cpp\<close>\<close>

subsection \<open>Global variables\<close>

text \<open>
  The three file-scope variables of the plugin. \<open>plugin_globals_init\<close> is their value
  after static initialisation: \<^verbatim>\<open>lj_potential_at_cutoff\<close> has no initialiser and is
  therefore zero until \<^verbatim>\<open>initialize\<close> assigns it.
\<close>

record plugin_globals =
  lj_cutoff :: real
  lj_cutoff2 :: real
  lj_potential_at_cutoff :: real

definition plugin_globals_init :: plugin_globals where
  "plugin_globals_init =
     \<lparr> lj_cutoff = 5 / 2, lj_cutoff2 = (5 / 2) * (5 / 2), lj_potential_at_cutoff = 0 \<rparr>"

subsection \<open>The Lennard-Jones functions\<close>

definition lj_potential :: "real \<Rightarrow> real" where
  "lj_potential r2 =
     (let inv_r2 = 1 / r2;
          inv_r6 = inv_r2 * inv_r2 * inv_r2
      in 4 * (inv_r6 * inv_r6 - inv_r6))"

definition lj_potential_with_cutoff :: "plugin_globals \<Rightarrow> real \<Rightarrow> real" where
  "lj_potential_with_cutoff g r2 =
     (if r2 < lj_cutoff2 g then lj_potential r2 - lj_potential_at_cutoff g else 0)"

definition lj_force :: "real \<Rightarrow> real" where
  "lj_force r2 =
     (let inv_r2 = 1 / r2;
          inv_r6 = inv_r2 * inv_r2 * inv_r2
      in 24 * inv_r2 * (2 * inv_r6 * inv_r6 - inv_r6))"

definition lj_force_with_cutoff :: "plugin_globals \<Rightarrow> real \<Rightarrow> real" where
  "lj_force_with_cutoff g r2 = (if r2 < lj_cutoff2 g then lj_force r2 else 0)"

subsection \<open>The pair loop \<^verbatim>\<open>evaluate_lj_forces\<close>\<close>

text \<open>
  The two statements that follow each coordinate difference,
  \<^verbatim>\<open>if (dx > 0.5 * box_size) dx -= box_size; if (dx < -0.5 * box_size) dx += box_size;\<close>
  are written once, as \<open>minimum_image\<close>; the second test reads the value the first
  statement left.
\<close>

definition minimum_image :: "real \<Rightarrow> real \<Rightarrow> real" where
  "minimum_image box_size d =
     (let d1 = (if d > 0.5 * box_size then d - box_size else d);
          d2 = (if d1 < - 0.5 * box_size then d1 + box_size else d1)
      in d2)"

text \<open>
  The corrected displacement \<open>(dx, dy, dz)\<close> of a pair, \<open>p\<close> being
  \<^verbatim>\<open>positions[iparticle]\<close> and \<open>q\<close> being \<^verbatim>\<open>positions[jparticle]\<close>, and \<open>r2\<close>.
\<close>

definition displacement :: "real \<Rightarrow> vec3 \<Rightarrow> vec3 \<Rightarrow> vec3" where
  "displacement box_size p q =
     (minimum_image box_size (vx p - vx q),
      minimum_image box_size (vy p - vy q),
      minimum_image box_size (vz p - vz q))"

definition squared_norm :: "vec3 \<Rightarrow> real" where
  "squared_norm d = (vx d * vx d) + (vy d * vy d) + (vz d * vz d)"

text \<open>
  The body of the inner loop for one \<open>(iparticle, jparticle)\<close>; it updates the pair
  \<open>(forces, potential_energy)\<close>, the two output parameters of the function.
\<close>

definition lj_pair ::
  "plugin_globals \<Rightarrow> real \<Rightarrow> vec3 list \<Rightarrow> nat \<Rightarrow> nat \<Rightarrow> vec3 list \<times> real \<Rightarrow> vec3 list \<times> real" where
  "lj_pair g box_size positions iparticle jparticle out =
     (if iparticle \<noteq> jparticle then
        (let d = displacement box_size (positions ! iparticle) (positions ! jparticle);
             r2 = squared_norm d;
             f = lj_force_with_cutoff g r2;
             forces = fst out;
             potential_energy = snd out;
             fi = forces ! iparticle
         in (forces [iparticle := (vx fi + f * vx d, vy fi + f * vy d, vz fi + f * vz d)],
             potential_energy + 0.5 * lj_potential_with_cutoff g r2))
      else out)"

definition evaluate_lj_forces ::
  "plugin_globals \<Rightarrow> int \<Rightarrow> real \<Rightarrow> real \<Rightarrow> vec3 list \<Rightarrow> vec3 list \<Rightarrow> vec3 list \<times> real" where
  "evaluate_lj_forces g nparticles potential_energy box_size positions forces =
     fold (\<lambda>iparticle.
             fold (\<lambda>jparticle. lj_pair g box_size positions iparticle jparticle)
                  [0 ..< nat nparticles])
          [0 ..< nat nparticles]
          (forces, potential_energy)"

subsection \<open>The entry points\<close>

text \<open>
  The argument of both entry points is a
  \<^verbatim>\<open>std::map<std::string, std::shared_ptr<std::any>>\<close>; the values a handle can hold
  are the fields of the simulation.
\<close>

datatype any_value = AnyInt int | AnyDouble real | AnyVectors "vec3 list"

type_synonym plugin_state = "string \<rightharpoonup> any_value"

text \<open>\<^verbatim>\<open>initialize\<close> assigns one global and does not touch its argument.\<close>

definition initialize :: "plugin_globals \<Rightarrow> plugin_state \<Rightarrow> plugin_globals \<times> plugin_state" where
  "initialize g state = (g \<lparr> lj_potential_at_cutoff := lj_potential (lj_cutoff2 g) \<rparr>, state)"

text \<open>
  The body of \<^verbatim>\<open>evaluate_forces\<close> is a comment: the call of \<^verbatim>\<open>evaluate_lj_forces\<close> is
  commented out, so the function returns with the globals and its argument unchanged.
\<close>

definition evaluate_forces :: "plugin_globals \<Rightarrow> plugin_state \<Rightarrow> plugin_globals \<times> plugin_state" where
  "evaluate_forces g state = (g, state)"

section \<open>The engine: \<^verbatim>\<open>executable/src/main.cpp\<close>\<close>

subsection \<open>The simulation state\<close>

text \<open>The data members of \<^verbatim>\<open>class MDSimulation\<close>.\<close>

record md_state =
  box_size :: real
  potential_energy :: real
  kinetic_energy :: real
  nparticles :: int
  positions :: "vec3 list"
  velocities :: "vec3 list"
  forces :: "vec3 list"

subsection \<open>The constructor\<close>

text \<open>
  \<^verbatim>\<open>int particles_per_side = std::ceil( std::pow(nparticles, 1.0/3.0) );\<close>
  The exponent is the real number one third.
\<close>

definition particles_per_side :: "int \<Rightarrow> int" where
  "particles_per_side n = \<lceil>(of_int n :: real) powr (1 / 3)\<rceil>"

text \<open>
  The body of the first loop. \<^verbatim>\<open>%\<close> and \<^verbatim>\<open>/\<close> on \<^verbatim>\<open>int\<close> truncate towards zero in
  C++; their operands here are never negative, where truncation is \<open>mod\<close> and \<open>div\<close>.
  \<open>lattice_slot\<close> is the triple \<open>(ix, iy, iz)\<close>.
\<close>

definition lattice_slot :: "int \<Rightarrow> nat \<Rightarrow> int \<times> int \<times> int" where
  "lattice_slot per_side iparticle =
     (int iparticle mod per_side,
      (int iparticle div per_side) mod per_side,
      int iparticle div (per_side * per_side))"

definition lattice_position :: "real \<Rightarrow> int \<Rightarrow> nat \<Rightarrow> vec3" where
  "lattice_position particle_spacing per_side iparticle =
     (case lattice_slot per_side iparticle of (ix, iy, iz) \<Rightarrow>
        (particle_spacing * of_int ix + (0.5 * particle_spacing),
         particle_spacing * of_int iy + (0.5 * particle_spacing),
         particle_spacing * of_int iz + (0.5 * particle_spacing)))"

text \<open>
  The body of the second loop. \<^verbatim>\<open>std::mt19937\<close> and
  \<^verbatim>\<open>std::uniform_real_distribution<double>\<close> belong to the C++ standard library, not to
  this program, and are parameters of the model: \<open>mt19937 seed\<close> is the generator
  that \<^verbatim>\<open>std::mt19937 gen(seed)\<close> constructs, and \<open>random_vel gen\<close> is the number that
  \<^verbatim>\<open>random_vel(gen)\<close> returns together with the generator it leaves. The three calls
  in the braced initialiser are evaluated from left to right.
\<close>

definition seeded_velocity :: "(int \<Rightarrow> 'g) \<Rightarrow> ('g \<Rightarrow> real \<times> 'g) \<Rightarrow> nat \<Rightarrow> vec3" where
  "seeded_velocity mt19937 random_vel iparticle =
     (let gen = mt19937 (int iparticle);
          (v0, gen) = random_vel gen;
          (v1, gen) = random_vel gen;
          (v2, gen) = random_vel gen
      in (v0, v1, v2))"

text \<open>
  The constructor. It assigns neither \<^verbatim>\<open>potential_energy\<close> nor \<^verbatim>\<open>kinetic_energy\<close>,
  whose values are indeterminate until \<^verbatim>\<open>run\<close> assigns them. Its last line is the
  comment \<^verbatim>\<open>// Call the plugin initialize function here\<close>; there is no call.
\<close>

definition MDSimulation :: "(int \<Rightarrow> 'g) \<Rightarrow> ('g \<Rightarrow> real \<times> 'g) \<Rightarrow> real \<Rightarrow> int \<Rightarrow> md_state" where
  "MDSimulation mt19937 random_vel box_size_in nparticles_in =
     (let per_side = particles_per_side nparticles_in;
          particle_spacing = box_size_in / of_int (per_side + 1)
      in \<lparr> box_size = box_size_in,
           potential_energy = undefined,
           kinetic_energy = undefined,
           nparticles = nparticles_in,
           positions =
             fold (\<lambda>iparticle ps. ps @ [lattice_position particle_spacing per_side iparticle])
                  [0 ..< nat nparticles_in] [],
           velocities =
             fold (\<lambda>iparticle vs. vs @ [seeded_velocity mt19937 random_vel iparticle])
                  [0 ..< nat nparticles_in] [],
           forces =
             fold (\<lambda>iparticle fs. fs @ [(0, 0, 0)]) [0 ..< nat nparticles_in] [] \<rparr>)"

subsection \<open>The integration loop \<^verbatim>\<open>run\<close>\<close>

text \<open>
  The two statements of the loop over \<^verbatim>\<open>idimension\<close>, for one coordinate; the second
  test reads the value the first statement left.
\<close>

definition wrap_coordinate :: "real \<Rightarrow> real \<Rightarrow> real" where
  "wrap_coordinate L x =
     (let x1 = (if x < 0 then x + L else x);
          x2 = (if x1 \<ge> L then x1 - L else x1)
      in x2)"

text \<open>The body of the first particle loop: position update, then the wrap.\<close>

definition move_particle :: "real \<Rightarrow> nat \<Rightarrow> md_state \<Rightarrow> md_state" where
  "move_particle dt iparticle s =
     (let p = positions s ! iparticle;
          v = velocities s ! iparticle;
          p' = (vx p + vx v * dt, vy p + vy v * dt, vz p + vz v * dt);
          p'' = (wrap_coordinate (box_size s) (vx p'),
                 wrap_coordinate (box_size s) (vy p'),
                 wrap_coordinate (box_size s) (vz p'))
      in s \<lparr> positions := (positions s) [iparticle := p''] \<rparr>)"

definition zero_force :: "nat \<Rightarrow> md_state \<Rightarrow> md_state" where
  "zero_force iparticle s = s \<lparr> forces := (forces s) [iparticle := (0, 0, 0)] \<rparr>"

text \<open>The body of the kinetic-energy loop: three additions, in this order.\<close>

definition add_kinetic_energy :: "nat \<Rightarrow> md_state \<Rightarrow> md_state" where
  "add_kinetic_energy iparticle s =
     (let v = velocities s ! iparticle;
          s1 = s \<lparr> kinetic_energy := kinetic_energy s + 0.5 * vx v * vx v \<rparr>;
          s2 = s1 \<lparr> kinetic_energy := kinetic_energy s1 + 0.5 * vy v * vy v \<rparr>;
          s3 = s2 \<lparr> kinetic_energy := kinetic_energy s2 + 0.5 * vz v * vz v \<rparr>
      in s3)"

definition update_velocity :: "real \<Rightarrow> nat \<Rightarrow> md_state \<Rightarrow> md_state" where
  "update_velocity dt iparticle s =
     (let v = velocities s ! iparticle;
          f = forces s ! iparticle
      in s \<lparr> velocities :=
               (velocities s) [iparticle := (vx v + vx f * dt, vy v + vy f * dt, vz v + vz f * dt)] \<rparr>)"

text \<open>
  The four lines printed at the end of an iteration (step index, potential energy,
  kinetic energy, their sum), and the line printed after the loop.
\<close>

datatype output_line = Iteration int real real real | Simulation_completed

text \<open>
  One iteration of the main loop, on the state and the text printed so far. Between
  the loop that zeroes the forces and the kinetic-energy loop the source has the
  comment \<^verbatim>\<open>// Call the plugin evaluate_forces function here\<close> and no statement.
\<close>

definition md_step :: "real \<Rightarrow> nat \<Rightarrow> md_state \<times> output_line list \<Rightarrow> md_state \<times> output_line list" where
  "md_step dt istep so =
     (let s = fst so;
          n = nat (nparticles s);
          s = fold (move_particle dt) [0 ..< n] s;
          s = s \<lparr> potential_energy := 0 \<rparr>;
          s = s \<lparr> kinetic_energy := 0 \<rparr>;
          s = fold zero_force [0 ..< n] s;
          s = fold add_kinetic_energy [0 ..< n] s;
          s = fold (update_velocity dt) [0 ..< n] s
      in (s, snd so @ [Iteration (int istep) (potential_energy s) (kinetic_energy s)
                         (potential_energy s + kinetic_energy s)]))"

definition run :: "int \<Rightarrow> real \<Rightarrow> md_state \<Rightarrow> md_state \<times> output_line list" where
  "run nsteps dt s =
     (let so = fold (md_step dt) [0 ..< nat nsteps] (s, [])
      in (fst so, snd so @ [Simulation_completed]))"

subsection \<open>The integration loop with a log of what it reads and writes\<close>

text \<open>
  A function from state to state does not show in which order the loops of an
  iteration run. To state the order, every execution of a loop body and every
  statement between the loops appends one entry to a log: the particle, what the
  body read from the other vector and what it left in the variable it assigns. The
  logged bodies apply the bodies above, and the logged iteration has the statements
  of the iteration above in the same order, so the states are the same.
\<close>

datatype event =
    Position_written nat vec3 vec3
  | Potential_energy_zeroed
  | Kinetic_energy_zeroed
  | Force_zeroed nat
  | Kinetic_energy_added nat vec3 real
  | Velocity_written nat vec3 vec3
  | Printed output_line

text \<open>
  \<open>Position_written i v p\<close>: the first loop read \<^verbatim>\<open>velocities[i]\<close> \<open>= v\<close> and left
  \<^verbatim>\<open>positions[i]\<close> \<open>= p\<close>. \<open>Kinetic_energy_added i v e\<close>: the kinetic-energy loop read
  \<^verbatim>\<open>velocities[i]\<close> \<open>= v\<close> and left \<^verbatim>\<open>kinetic_energy\<close> \<open>= e\<close>. \<open>Velocity_written i f v\<close>:
  the last loop read \<^verbatim>\<open>forces[i]\<close> \<open>= f\<close> and left \<^verbatim>\<open>velocities[i]\<close> \<open>= v\<close>.
\<close>

definition move_particle_logged ::
  "real \<Rightarrow> nat \<Rightarrow> md_state \<times> event list \<Rightarrow> md_state \<times> event list" where
  "move_particle_logged dt iparticle sl =
     (let s = fst sl;
          s' = move_particle dt iparticle s
      in (s', snd sl @ [Position_written iparticle (velocities s ! iparticle)
                          (positions s' ! iparticle)]))"

definition zero_force_logged :: "nat \<Rightarrow> md_state \<times> event list \<Rightarrow> md_state \<times> event list" where
  "zero_force_logged iparticle sl =
     (zero_force iparticle (fst sl), snd sl @ [Force_zeroed iparticle])"

definition add_kinetic_energy_logged ::
  "nat \<Rightarrow> md_state \<times> event list \<Rightarrow> md_state \<times> event list" where
  "add_kinetic_energy_logged iparticle sl =
     (let s = fst sl;
          s' = add_kinetic_energy iparticle s
      in (s', snd sl @ [Kinetic_energy_added iparticle (velocities s ! iparticle)
                          (kinetic_energy s')]))"

definition update_velocity_logged ::
  "real \<Rightarrow> nat \<Rightarrow> md_state \<times> event list \<Rightarrow> md_state \<times> event list" where
  "update_velocity_logged dt iparticle sl =
     (let s = fst sl;
          s' = update_velocity dt iparticle s
      in (s', snd sl @ [Velocity_written iparticle (forces s ! iparticle)
                          (velocities s' ! iparticle)]))"

definition md_step_logged ::
  "real \<Rightarrow> nat \<Rightarrow> md_state \<times> event list \<Rightarrow> md_state \<times> event list" where
  "md_step_logged dt istep sl =
     (let n = nat (nparticles (fst sl));
          sl = fold (move_particle_logged dt) [0 ..< n] sl;
          sl = ((fst sl) \<lparr> potential_energy := 0 \<rparr>, snd sl @ [Potential_energy_zeroed]);
          sl = ((fst sl) \<lparr> kinetic_energy := 0 \<rparr>, snd sl @ [Kinetic_energy_zeroed]);
          sl = fold zero_force_logged [0 ..< n] sl;
          sl = fold add_kinetic_energy_logged [0 ..< n] sl;
          sl = fold (update_velocity_logged dt) [0 ..< n] sl;
          s = fst sl
      in (s, snd sl @ [Printed (Iteration (int istep) (potential_energy s) (kinetic_energy s)
                                  (potential_energy s + kinetic_energy s))]))"

definition run_logged :: "int \<Rightarrow> real \<Rightarrow> md_state \<Rightarrow> md_state \<times> event list" where
  "run_logged nsteps dt s =
     (let sl = fold (md_step_logged dt) [0 ..< nat nsteps] (s, [])
      in (fst sl, snd sl @ [Printed Simulation_completed]))"

subsection \<open>Auxiliary notions used in the statements\<close>

text \<open>A state whose three vectors hold \<^verbatim>\<open>nparticles\<close> elements.\<close>

definition sized :: "md_state \<Rightarrow> bool" where
  "sized s \<longleftrightarrow>
     length (positions s) = nat (nparticles s) \<and>
     length (velocities s) = nat (nparticles s) \<and>
     length (forces s) = nat (nparticles s)"

text \<open>Every coordinate of every vector of a list satisfies \<open>P\<close>.\<close>

definition all_coordinates :: "(real \<Rightarrow> bool) \<Rightarrow> vec3 list \<Rightarrow> bool" where
  "all_coordinates P vs \<longleftrightarrow> list_all (\<lambda>v. P (vx v) \<and> P (vy v) \<and> P (vz v)) vs"

text \<open>
  What the inner loop body adds for the pair \<open>(i, j)\<close>: to coordinate \<open>c\<close> of
  \<^verbatim>\<open>forces[i]\<close>, and to \<^verbatim>\<open>potential_energy\<close>. Nothing is added for \<open>i = j\<close>.
\<close>

definition pair_force :: "(vec3 \<Rightarrow> real) \<Rightarrow> plugin_globals \<Rightarrow> real \<Rightarrow> vec3 list \<Rightarrow> nat \<Rightarrow> nat \<Rightarrow> real" where
  "pair_force c g L pos i j =
     (if i \<noteq> j then
        lj_force_with_cutoff g (squared_norm (displacement L (pos ! i) (pos ! j)))
          * c (displacement L (pos ! i) (pos ! j))
      else 0)"

definition pair_energy :: "plugin_globals \<Rightarrow> real \<Rightarrow> vec3 list \<Rightarrow> nat \<Rightarrow> nat \<Rightarrow> real" where
  "pair_energy g L pos i j =
     (if i \<noteq> j then
        0.5 * lj_potential_with_cutoff g (squared_norm (displacement L (pos ! i) (pos ! j)))
      else 0)"

section \<open>Properties of the plugin\<close>

lemma vec3_eta [simp]: "(vx v, vy v, vz v) = v"
  by (simp add: vx_def vy_def vz_def)

lemma vec3_sel [simp]: "vx (a, b, c) = a" "vy (a, b, c) = b" "vz (a, b, c) = c"
  by (simp_all add: vx_def vy_def vz_def)

lemma minimum_image_uminus:
  assumes "0 \<le> L"
  shows "minimum_image L (- d) = - minimum_image L d"
  using assms by (simp add: minimum_image_def)

lemma minimum_image_diff_swap:
  assumes "0 \<le> L"
  shows "minimum_image L (b - a) = - minimum_image L (a - b)"
  using minimum_image_uminus [OF assms, of "a - b"] by simp

lemma displacement_swap:
  assumes "0 \<le> L"
  shows "vx (displacement L q p) = - vx (displacement L p q)"
    and "vy (displacement L q p) = - vy (displacement L p q)"
    and "vz (displacement L q p) = - vz (displacement L p q)"
  by (simp_all add: displacement_def
        minimum_image_diff_swap [OF assms, of "vx q" "vx p"]
        minimum_image_diff_swap [OF assms, of "vy q" "vy p"]
        minimum_image_diff_swap [OF assms, of "vz q" "vz p"])

lemma squared_norm_swap:
  assumes "0 \<le> L"
  shows "squared_norm (displacement L q p) = squared_norm (displacement L p q)"
  unfolding squared_norm_def displacement_swap [OF assms, of q p] by simp

lemma pair_energy_swap:
  assumes "0 \<le> L"
  shows "pair_energy g L pos j i = pair_energy g L pos i j"
  by (auto simp add: pair_energy_def squared_norm_swap [OF assms(1), of "pos ! j" "pos ! i"])

lemma lj_pair_eq:
  "lj_pair g L pos i j (fs, pe) =
     (fs [i := (vx (fs ! i) + pair_force vx g L pos i j,
                vy (fs ! i) + pair_force vy g L pos i j,
                vz (fs ! i) + pair_force vz g L pos i j)],
      pe + pair_energy g L pos i j)"
  by (simp add: lj_pair_def pair_force_def pair_energy_def Let_def)

lemma inner_loop:
  assumes "i < length fs"
  shows "fold (\<lambda>j. lj_pair g L pos i j) js (fs, pe) =
     (fs [i := (vx (fs ! i) + sum_list (map (pair_force vx g L pos i) js),
                vy (fs ! i) + sum_list (map (pair_force vy g L pos i) js),
                vz (fs ! i) + sum_list (map (pair_force vz g L pos i) js))],
      pe + sum_list (map (pair_energy g L pos i) js))"
  using assms
proof (induction js arbitrary: fs pe)
  case Nil
  then show ?case by simp
next
  case (Cons j js)
  then show ?case
    by (simp add: lj_pair_eq add.assoc)
qed


lemma outer_loop:
  assumes "\<forall>i \<in> set is. i < length fs"
  shows "length (fst (fold (\<lambda>i. fold (\<lambda>j. lj_pair g L pos i j) js) is (fs, pe))) = length fs
    \<and> (\<forall>k < length fs.
          vx (fst (fold (\<lambda>i. fold (\<lambda>j. lj_pair g L pos i j) js) is (fs, pe)) ! k)
            = vx (fs ! k) + sum_list (map (\<lambda>i. if i = k then sum_list (map (pair_force vx g L pos i) js) else 0) is)
        \<and> vy (fst (fold (\<lambda>i. fold (\<lambda>j. lj_pair g L pos i j) js) is (fs, pe)) ! k)
            = vy (fs ! k) + sum_list (map (\<lambda>i. if i = k then sum_list (map (pair_force vy g L pos i) js) else 0) is)
        \<and> vz (fst (fold (\<lambda>i. fold (\<lambda>j. lj_pair g L pos i j) js) is (fs, pe)) ! k)
            = vz (fs ! k) + sum_list (map (\<lambda>i. if i = k then sum_list (map (pair_force vz g L pos i) js) else 0) is))
    \<and> snd (fold (\<lambda>i. fold (\<lambda>j. lj_pair g L pos i j) js) is (fs, pe))
          = pe + sum_list (map (\<lambda>i. sum_list (map (pair_energy g L pos i) js)) is)"
  using assms
proof (induction "is" arbitrary: fs pe)
  case Nil
  then show ?case by simp
next
  case (Cons i "is")
  from Cons.prems have i: "i < length fs" by simp
  let ?fs = "fs [i := (vx (fs ! i) + sum_list (map (pair_force vx g L pos i) js),
                vy (fs ! i) + sum_list (map (pair_force vy g L pos i) js),
                vz (fs ! i) + sum_list (map (pair_force vz g L pos i) js))]"
  let ?pe = "pe + sum_list (map (pair_energy g L pos i) js)"
  have len: "length ?fs = length fs" by simp
  from Cons.prems have prem: "\<forall>i \<in> set is. i < length ?fs" by simp
  have step: "fold (\<lambda>i. fold (\<lambda>j. lj_pair g L pos i j) js) (i # is) (fs, pe)
      = fold (\<lambda>i. fold (\<lambda>j. lj_pair g L pos i j) js) is (?fs, ?pe)"
    by (simp add: inner_loop [OF i])
  have nth: "\<And>k. k < length fs \<Longrightarrow> ?fs ! k = (if k = i then
        (vx (fs ! i) + sum_list (map (pair_force vx g L pos i) js),
         vy (fs ! i) + sum_list (map (pair_force vy g L pos i) js),
         vz (fs ! i) + sum_list (map (pair_force vz g L pos i) js)) else fs ! k)"
    by (simp add: nth_list_update)
  show ?case
    unfolding step using Cons.IH [OF prem, of ?pe]
    by (simp only: len) (auto simp add: nth add.assoc)
qed

lemma sum_list_upt_delta:
  assumes "k < n"
  shows "sum_list (map (\<lambda>i. if i = k then (a i :: real) else 0) [0 ..< n]) = a k"
proof -
  have "sum_list (map (\<lambda>i. if i = k then a i else 0) [0 ..< n])
      = (\<Sum>i \<in> {0 ..< n}. if i = k then a i else 0)"
    by (simp add: interv_sum_list_conv_sum_set_nat)
  also have "\<dots> = a k" using assms by simp
  finally show ?thesis .
qed

text \<open>What \<open>evaluate_lj_forces\<close> leaves, entry by entry.\<close>

lemma evaluate_lj_forces_result:
  assumes "length fs = nat n"
  shows "length (fst (evaluate_lj_forces g n pe L pos fs)) = nat n"
    and "k < nat n \<Longrightarrow> vx (fst (evaluate_lj_forces g n pe L pos fs) ! k)
            = vx (fs ! k) + (\<Sum>j = 0 ..< nat n. pair_force vx g L pos k j)"
    and "k < nat n \<Longrightarrow> vy (fst (evaluate_lj_forces g n pe L pos fs) ! k)
            = vy (fs ! k) + (\<Sum>j = 0 ..< nat n. pair_force vy g L pos k j)"
    and "k < nat n \<Longrightarrow> vz (fst (evaluate_lj_forces g n pe L pos fs) ! k)
            = vz (fs ! k) + (\<Sum>j = 0 ..< nat n. pair_force vz g L pos k j)"
    and "snd (evaluate_lj_forces g n pe L pos fs)
            = pe + (\<Sum>i = 0 ..< nat n. \<Sum>j = 0 ..< nat n. pair_energy g L pos i j)"
proof -
  have prem: "\<forall>i \<in> set [0 ..< nat n]. i < length fs" using assms by simp
  note ol = outer_loop [OF prem, of g L pos "[0 ..< nat n]" pe, folded evaluate_lj_forces_def]
  show "length (fst (evaluate_lj_forces g n pe L pos fs)) = nat n"
    using ol assms by simp
  show "k < nat n \<Longrightarrow> vx (fst (evaluate_lj_forces g n pe L pos fs) ! k)
            = vx (fs ! k) + (\<Sum>j = 0 ..< nat n. pair_force vx g L pos k j)"
    using ol assms by (simp add: sum_list_upt_delta interv_sum_list_conv_sum_set_nat)
  show "k < nat n \<Longrightarrow> vy (fst (evaluate_lj_forces g n pe L pos fs) ! k)
            = vy (fs ! k) + (\<Sum>j = 0 ..< nat n. pair_force vy g L pos k j)"
    using ol assms by (simp add: sum_list_upt_delta interv_sum_list_conv_sum_set_nat)
  show "k < nat n \<Longrightarrow> vz (fst (evaluate_lj_forces g n pe L pos fs) ! k)
            = vz (fs ! k) + (\<Sum>j = 0 ..< nat n. pair_force vz g L pos k j)"
    using ol assms by (simp add: sum_list_upt_delta interv_sum_list_conv_sum_set_nat)
  show "snd (evaluate_lj_forces g n pe L pos fs)
            = pe + (\<Sum>i = 0 ..< nat n. \<Sum>j = 0 ..< nat n. pair_energy g L pos i j)"
    using ol by (simp add: interv_sum_list_conv_sum_set_nat)
qed

lemma two_particle_energy:
  assumes "length fs = 2" "i < 2" "j < 2" "i \<noteq> j" "0 \<le> L"
  shows "snd (evaluate_lj_forces g 2 pe L pos fs) = pe + 2 * pair_energy g L pos i j"
proof -
  have len: "length fs = nat 2" using assms(1) by simp
  have two: "{0 ..< nat 2} = {0, Suc 0}" by auto
  have e: "snd (evaluate_lj_forces g 2 pe L pos fs)
      = pe + (pair_energy g L pos 0 (Suc 0) + pair_energy g L pos (Suc 0) 0)"
    unfolding evaluate_lj_forces_result(5) [OF len] two
    by (simp add: pair_energy_def)
  from assms have "(i = 0 \<and> j = Suc 0) \<or> (i = Suc 0 \<and> j = 0)" by auto
  then show ?thesis
    using e pair_energy_swap [OF assms(5), of g pos 0 "Suc 0"] by auto
qed

lemma lj_force_powers:
  "lj_force r2 = 24 * (1 / r2) * (2 * (1 / r2) ^ 6 - (1 / r2) ^ 3)"
  by (simp add: lj_force_def Let_def power_numeral_reduce algebra_simps)

lemma lj_potential_powers:
  "lj_potential r2 = 4 * ((1 / r2) ^ 3 * (1 / r2) ^ 3 - (1 / r2) ^ 3)"
  by (simp add: lj_potential_def Let_def power_numeral_reduce algebra_simps)

lemma fold_product:
  "fold f (List.product xs ys) = fold (\<lambda>x. fold (\<lambda>y. f (x, y)) ys) xs"
proof (induction xs)
  case Nil
  then show ?case by simp
next
  case (Cons x xs)
  have "fold f (map (Pair x) ys) = fold (\<lambda>y. f (x, y)) ys"
    by (simp add: fold_map comp_def)
  with Cons show ?case by simp
qed

lemma lj_potential_of_distance:
  "lj_potential (r * r) = 4 * ((1 / r) ^ 12 - (1 / r) ^ 6)"
  by (simp add: lj_potential_def Let_def power_numeral_reduce algebra_simps)

lemma pair_terms_initialized:
  assumes "lj_potential_at_cutoff g = lj_potential (lj_cutoff2 g)"
  shows "pair_force c g L pos i j =
           (if j \<noteq> i \<and> squared_norm (displacement L (pos ! i) (pos ! j)) < lj_cutoff2 g
            then lj_force (squared_norm (displacement L (pos ! i) (pos ! j)))
                   * c (displacement L (pos ! i) (pos ! j))
            else 0)"
    and "pair_energy g L pos i j =
           (if j \<noteq> i \<and> squared_norm (displacement L (pos ! i) (pos ! j)) < lj_cutoff2 g
            then 0.5 * (lj_potential (squared_norm (displacement L (pos ! i) (pos ! j)))
                          - lj_potential (lj_cutoff2 g))
            else 0)"
  using assms
  by (auto simp add: pair_force_def pair_energy_def lj_force_with_cutoff_def
        lj_potential_with_cutoff_def)

subsection \<open>Claim C2: what the pair loop adds\<close>

text \<open>
  Claim C2. Let the plugin be initialised, and take \<open>n\<close> positions no two of which have
  minimum-image squared separation zero; write \<open>d i j\<close> for the corrected displacement
  of the ordered pair \<open>(i, j)\<close> and \<open>r2 i j\<close> for its squared length.

  \<^item> For every ordered pair with \<open>i \<noteq> j\<close> and \<open>r2 < lj_cutoff2\<close>: the force factor is
    \<open>24 \<cdot> r2\<^sup>-\<^sup>1 \<cdot> (2 \<cdot> r2\<^sup>-\<^sup>6 - r2\<^sup>-\<^sup>3)\<close>, powers of \<open>1 / r2\<close>; the potential is
    \<open>4 \<cdot> (x \<cdot> x - x)\<close> with \<open>x = (r2\<^sup>-\<^sup>1)\<^sup>3\<close>, which is \<open>4 \<cdot> (r\<^sup>-\<^sup>1\<^sup>2 - r\<^sup>-\<^sup>6)\<close> when
    \<open>r2 = r \<cdot> r\<close> (this \<open>x\<close> is what the claim's formula for the potential writes
    \<open>r2\<^sup>-\<^sup>6\<close>, the sixth inverse power of the distance); and the visit of the pair
    adds the force factor times \<open>d i j\<close> to \<^verbatim>\<open>forces[i]\<close> and
    \<open>0.5 \<cdot> (V(r2) - V(lj_cutoff2))\<close> to the potential energy, whatever the two hold.
  \<^item> \<open>evaluate_lj_forces\<close> is one visit for every ordered pair of \<open>[0, n) \<times> [0, n)\<close>, row
    by row.
  \<^item> So \<^verbatim>\<open>forces[i]\<close> ends as its initial value plus the sum of these force terms over
    all \<open>j \<noteq> i\<close> inside the cutoff, and the potential energy as its initial value plus
    the sum of the energy terms over all ordered pairs inside the cutoff.
  \<^item> For two particles in a positive box, inside the cutoff, the potential energy
    started at zero ends as one \<open>V(r2) - V(lj_cutoff2)\<close>.
\<close>

theorem lj_kernel_contributions:
  assumes g: "g = fst (initialize g0 state)"
    and d: "d = (\<lambda>i j. displacement L (pos ! i) (pos ! j))"
    and r2: "r2 = (\<lambda>i j. squared_norm (d i j))"
    and len: "length pos = nat n" "length fs = nat n"
    and apart: "\<forall>i < nat n. \<forall>j < nat n. i \<noteq> j \<longrightarrow> r2 i j \<noteq> 0"
  shows "(\<forall>i < nat n. \<forall>j < nat n. i \<noteq> j \<and> r2 i j < lj_cutoff2 g \<longrightarrow>
            lj_force (r2 i j) = 24 * (1 / r2 i j) * (2 * (1 / r2 i j) ^ 6 - (1 / r2 i j) ^ 3)
          \<and> lj_potential (r2 i j)
              = 4 * ((1 / r2 i j) ^ 3 * (1 / r2 i j) ^ 3 - (1 / r2 i j) ^ 3)
          \<and> (\<forall>r. r * r = r2 i j \<longrightarrow> lj_potential (r2 i j) = 4 * ((1 / r) ^ 12 - (1 / r) ^ 6))
          \<and> (\<forall>acc_f acc_pe.
                lj_pair g L pos i j (acc_f, acc_pe)
                  = (acc_f [i := (vx (acc_f ! i) + lj_force (r2 i j) * vx (d i j),
                                  vy (acc_f ! i) + lj_force (r2 i j) * vy (d i j),
                                  vz (acc_f ! i) + lj_force (r2 i j) * vz (d i j))],
                     acc_pe + 0.5 * (lj_potential (r2 i j) - lj_potential (lj_cutoff2 g)))))
       \<and> evaluate_lj_forces g n pe L pos fs
           = fold (\<lambda>(i, j). lj_pair g L pos i j)
               (List.product [0 ..< nat n] [0 ..< nat n]) (fs, pe)
       \<and> (\<forall>i < nat n.
             vx (fst (evaluate_lj_forces g n pe L pos fs) ! i)
               = vx (fs ! i) + (\<Sum>j = 0 ..< nat n.
                   if j \<noteq> i \<and> r2 i j < lj_cutoff2 g then lj_force (r2 i j) * vx (d i j) else 0)
           \<and> vy (fst (evaluate_lj_forces g n pe L pos fs) ! i)
               = vy (fs ! i) + (\<Sum>j = 0 ..< nat n.
                   if j \<noteq> i \<and> r2 i j < lj_cutoff2 g then lj_force (r2 i j) * vy (d i j) else 0)
           \<and> vz (fst (evaluate_lj_forces g n pe L pos fs) ! i)
               = vz (fs ! i) + (\<Sum>j = 0 ..< nat n.
                   if j \<noteq> i \<and> r2 i j < lj_cutoff2 g then lj_force (r2 i j) * vz (d i j) else 0))
       \<and> snd (evaluate_lj_forces g n pe L pos fs)
           = pe + (\<Sum>i = 0 ..< nat n. \<Sum>j = 0 ..< nat n.
               if j \<noteq> i \<and> r2 i j < lj_cutoff2 g
               then 0.5 * (lj_potential (r2 i j) - lj_potential (lj_cutoff2 g)) else 0)
       \<and> (n = 2 \<and> 0 < L \<and> r2 0 1 < lj_cutoff2 g \<longrightarrow>
             snd (evaluate_lj_forces g n 0 L pos fs)
               = lj_potential (r2 0 1) - lj_potential (lj_cutoff2 g))"
proof -
  have shift: "lj_potential_at_cutoff g = lj_potential (lj_cutoff2 g)"
    by (simp add: g initialize_def)
  have dd: "\<And>i j. displacement L (pos ! i) (pos ! j) = d i j" by (simp add: d)
  have rr: "\<And>i j. squared_norm (d i j) = r2 i j" by (simp add: r2)
  note pt = pair_terms_initialized [OF shift, where L = L and pos = pos, unfolded dd rr]
  have visit: "\<forall>i < nat n. \<forall>j < nat n. i \<noteq> j \<and> r2 i j < lj_cutoff2 g \<longrightarrow>
            lj_force (r2 i j) = 24 * (1 / r2 i j) * (2 * (1 / r2 i j) ^ 6 - (1 / r2 i j) ^ 3)
          \<and> lj_potential (r2 i j)
              = 4 * ((1 / r2 i j) ^ 3 * (1 / r2 i j) ^ 3 - (1 / r2 i j) ^ 3)
          \<and> (\<forall>r. r * r = r2 i j \<longrightarrow> lj_potential (r2 i j) = 4 * ((1 / r) ^ 12 - (1 / r) ^ 6))
          \<and> (\<forall>acc_f acc_pe.
                lj_pair g L pos i j (acc_f, acc_pe)
                  = (acc_f [i := (vx (acc_f ! i) + lj_force (r2 i j) * vx (d i j),
                                  vy (acc_f ! i) + lj_force (r2 i j) * vy (d i j),
                                  vz (acc_f ! i) + lj_force (r2 i j) * vz (d i j))],
                     acc_pe + 0.5 * (lj_potential (r2 i j) - lj_potential (lj_cutoff2 g))))"
  proof (intro allI impI conjI)
    fix i j
    show "lj_force (r2 i j) = 24 * (1 / r2 i j) * (2 * (1 / r2 i j) ^ 6 - (1 / r2 i j) ^ 3)"
      by (rule lj_force_powers)
    show "lj_potential (r2 i j)
              = 4 * ((1 / r2 i j) ^ 3 * (1 / r2 i j) ^ 3 - (1 / r2 i j) ^ 3)"
      by (rule lj_potential_powers)
  next
    fix i j r :: real and k l :: nat
    assume "r * r = r2 k l"
    then show "lj_potential (r2 k l) = 4 * ((1 / r) ^ 12 - (1 / r) ^ 6)"
      using lj_potential_of_distance [of r] by simp
  next
    fix i j acc_f acc_pe
    assume "i \<noteq> j \<and> r2 i j < lj_cutoff2 g"
    then show "lj_pair g L pos i j (acc_f, acc_pe)
                  = (acc_f [i := (vx (acc_f ! i) + lj_force (r2 i j) * vx (d i j),
                                  vy (acc_f ! i) + lj_force (r2 i j) * vy (d i j),
                                  vz (acc_f ! i) + lj_force (r2 i j) * vz (d i j))],
                     acc_pe + 0.5 * (lj_potential (r2 i j) - lj_potential (lj_cutoff2 g)))"
      unfolding lj_pair_eq pt by auto
  qed
  have every: "evaluate_lj_forces g n pe L pos fs
           = fold (\<lambda>(i, j). lj_pair g L pos i j)
               (List.product [0 ..< nat n] [0 ..< nat n]) (fs, pe)"
    by (simp add: evaluate_lj_forces_def fold_product)
  note res = evaluate_lj_forces_result [OF len(2), where g = g and pe = pe and L = L and pos = pos]
  have forces: "\<forall>i < nat n.
             vx (fst (evaluate_lj_forces g n pe L pos fs) ! i)
               = vx (fs ! i) + (\<Sum>j = 0 ..< nat n.
                   if j \<noteq> i \<and> r2 i j < lj_cutoff2 g then lj_force (r2 i j) * vx (d i j) else 0)
           \<and> vy (fst (evaluate_lj_forces g n pe L pos fs) ! i)
               = vy (fs ! i) + (\<Sum>j = 0 ..< nat n.
                   if j \<noteq> i \<and> r2 i j < lj_cutoff2 g then lj_force (r2 i j) * vy (d i j) else 0)
           \<and> vz (fst (evaluate_lj_forces g n pe L pos fs) ! i)
               = vz (fs ! i) + (\<Sum>j = 0 ..< nat n.
                   if j \<noteq> i \<and> r2 i j < lj_cutoff2 g then lj_force (r2 i j) * vz (d i j) else 0)"
    by (simp add: res pt)
  have energy: "snd (evaluate_lj_forces g n pe L pos fs)
           = pe + (\<Sum>i = 0 ..< nat n. \<Sum>j = 0 ..< nat n.
               if j \<noteq> i \<and> r2 i j < lj_cutoff2 g
               then 0.5 * (lj_potential (r2 i j) - lj_potential (lj_cutoff2 g)) else 0)"
    unfolding evaluate_lj_forces_result(5) [OF len(2)] pt by (rule refl)
  have two: "n = 2 \<and> 0 < L \<and> r2 0 1 < lj_cutoff2 g \<longrightarrow>
             snd (evaluate_lj_forces g n 0 L pos fs)
               = lj_potential (r2 0 1) - lj_potential (lj_cutoff2 g)"
  proof
    assume h: "n = 2 \<and> 0 < L \<and> r2 0 1 < lj_cutoff2 g"
    with len have "snd (evaluate_lj_forces g 2 0 L pos fs) = 0 + 2 * pair_energy g L pos 0 1"
      by (intro two_particle_energy) simp_all
    with h show "snd (evaluate_lj_forces g n 0 L pos fs)
        = lj_potential (r2 0 1) - lj_potential (lj_cutoff2 g)"
      by (simp add: pt)
  qed
  from visit every forces energy two show ?thesis by blast
qed


theorem lj_kernel_contributions_witness:
  "squared_norm (displacement 20 ([(1, 1, 1), (5 / 2, 1, 1), (1, 3, 1)] ! 0)
       ([(1, 1, 1), (5 / 2, 1, 1), (1, 3, 1)] ! 1)) = 9 / 4
   \<and> squared_norm (displacement 20 ([(1, 1, 1), (5 / 2, 1, 1), (1, 3, 1)] ! 0)
       ([(1, 1, 1), (5 / 2, 1, 1), (1, 3, 1)] ! 2)) = 4
   \<and> squared_norm (displacement 20 ([(1, 1, 1), (5 / 2, 1, 1), (1, 3, 1)] ! 1)
       ([(1, 1, 1), (5 / 2, 1, 1), (1, 3, 1)] ! 2)) = 25 / 4
   \<and> lj_cutoff2 (fst (initialize plugin_globals_init Map.empty)) = 25 / 4
   \<and> fst (evaluate_lj_forces (fst (initialize plugin_globals_init Map.empty)) 3 0 20
         [(1, 1, 1), (5 / 2, 1, 1), (1, 3, 1)] [(0, 0, 0), (0, 0, 0), (0, 0, 0)]) ! 0
       = (lj_force (9 / 4) * (- 3 / 2), lj_force 4 * (- 2), 0)
   \<and> snd (evaluate_lj_forces (fst (initialize plugin_globals_init Map.empty)) 3 0 20
         [(1, 1, 1), (5 / 2, 1, 1), (1, 3, 1)] [(0, 0, 0), (0, 0, 0), (0, 0, 0)])
       = (lj_potential (9 / 4) - lj_potential (25 / 4)) + (lj_potential 4 - lj_potential (25 / 4))
   \<and> snd (evaluate_lj_forces (fst (initialize plugin_globals_init Map.empty)) 2 0 20
         [(1, 1, 1), (5 / 2, 1, 1)] [(0, 0, 0), (0, 0, 0)])
       = lj_potential (9 / 4) - lj_potential (25 / 4)"
proof -
  let ?g = "fst (initialize plugin_globals_init Map.empty)"
  let ?p0 = "(1, 1, 1) :: vec3" and ?p1 = "(5 / 2, 1, 1) :: vec3" and ?p2 = "(1, 3, 1) :: vec3"
  let ?pos = "[?p0, ?p1, ?p2]"
  let ?fs = "[(0, 0, 0), (0, 0, 0), (0, 0, 0 :: real)]"
  have c: "lj_cutoff2 ?g = 25 / 4"
    by (simp add: initialize_def plugin_globals_init_def)
  have d: "displacement 20 ?p0 ?p1 = (- 3 / 2, 0, 0)" "displacement 20 ?p0 ?p2 = (0, - 2, 0)"
    "displacement 20 ?p1 ?p0 = (3 / 2, 0, 0)" "displacement 20 ?p1 ?p2 = (3 / 2, - 2, 0)"
    "displacement 20 ?p2 ?p0 = (0, 2, 0)" "displacement 20 ?p2 ?p1 = (- 3 / 2, 2, 0)"
    by (simp_all add: displacement_def minimum_image_def)
  have r: "squared_norm (displacement 20 ?p0 ?p1) = 9 / 4"
    "squared_norm (displacement 20 ?p0 ?p2) = 4"
    "squared_norm (displacement 20 ?p1 ?p0) = 9 / 4"
    "squared_norm (displacement 20 ?p1 ?p2) = 25 / 4"
    "squared_norm (displacement 20 ?p2 ?p0) = 4"
    "squared_norm (displacement 20 ?p2 ?p1) = 25 / 4"
    unfolding d by (simp_all add: squared_norm_def)
  have three: "{0 ..< nat 3} = {0, Suc 0, Suc (Suc 0)}" by auto
  have apart: "\<forall>i < nat 3. \<forall>j < nat 3. i \<noteq> j \<longrightarrow>
      squared_norm (displacement 20 (?pos ! i) (?pos ! j)) \<noteq> 0"
  proof (intro allI impI)
    fix i j :: nat
    assume "i < nat 3" "j < nat 3" "i \<noteq> j"
    then have "(i = 0 \<and> j = Suc 0) \<or> (i = 0 \<and> j = Suc (Suc 0)) \<or> (i = Suc 0 \<and> j = 0)
        \<or> (i = Suc 0 \<and> j = Suc (Suc 0)) \<or> (i = Suc (Suc 0) \<and> j = 0)
        \<or> (i = Suc (Suc 0) \<and> j = Suc 0)"
      by auto
    then show "squared_norm (displacement 20 (?pos ! i) (?pos ! j)) \<noteq> 0"
      using r by auto
  qed
  have len: "length ?pos = nat 3" "length ?fs = nat 3" by simp_all
  note h = lj_kernel_contributions [where ?g0.0 = plugin_globals_init and state = Map.empty
      and pe = 0, OF refl refl refl len apart, unfolded c]
  have i0: "(0 :: nat) < nat 3" by simp
  note f0 = h [THEN conjunct2, THEN conjunct2, THEN conjunct1, rule_format, OF i0]
  have x: "vx (fst (evaluate_lj_forces ?g 3 0 20 ?pos ?fs) ! 0) = lj_force (9 / 4) * (- 3 / 2)"
    unfolding f0 [THEN conjunct1] three by (simp add: d squared_norm_def)
  have y: "vy (fst (evaluate_lj_forces ?g 3 0 20 ?pos ?fs) ! 0) = lj_force 4 * (- 2)"
    unfolding f0 [THEN conjunct2, THEN conjunct1] three by (simp add: d squared_norm_def)
  have z: "vz (fst (evaluate_lj_forces ?g 3 0 20 ?pos ?fs) ! 0) = 0"
    unfolding f0 [THEN conjunct2, THEN conjunct2] three by (simp add: d squared_norm_def)
  have force0: "fst (evaluate_lj_forces ?g 3 0 20 ?pos ?fs) ! 0
      = (lj_force (9 / 4) * (- 3 / 2), lj_force 4 * (- 2), 0)"
    using x y z by (metis vec3_eta)
  note e = h [THEN conjunct2, THEN conjunct2, THEN conjunct2, THEN conjunct1]
  have energy: "snd (evaluate_lj_forces ?g 3 0 20 ?pos ?fs)
      = (lj_potential (9 / 4) - lj_potential (25 / 4)) + (lj_potential 4 - lj_potential (25 / 4))"
    unfolding e three by (simp add: d squared_norm_def)
  let ?pos2 = "[?p0, ?p1]"
  let ?fs2 = "[(0, 0, 0), (0, 0, 0 :: real)]"
  have apart2: "\<forall>i < nat 2. \<forall>j < nat 2. i \<noteq> j \<longrightarrow>
      squared_norm (displacement 20 (?pos2 ! i) (?pos2 ! j)) \<noteq> 0"
  proof (intro allI impI)
    fix i j :: nat
    assume "i < nat 2" "j < nat 2" "i \<noteq> j"
    then have "(i = 0 \<and> j = Suc 0) \<or> (i = Suc 0 \<and> j = 0)" by auto
    then show "squared_norm (displacement 20 (?pos2 ! i) (?pos2 ! j)) \<noteq> 0"
      using r by auto
  qed
  have len2: "length ?pos2 = nat 2" "length ?fs2 = nat 2" by simp_all
  note h2 = lj_kernel_contributions [where ?g0.0 = plugin_globals_init and state = Map.empty
      and pe = 0, OF refl refl refl len2 apart2, unfolded c]
  note e2 = h2 [THEN conjunct2, THEN conjunct2, THEN conjunct2, THEN conjunct2]
  have energy2: "snd (evaluate_lj_forces ?g 2 0 20 ?pos2 ?fs2)
      = lj_potential (9 / 4) - lj_potential (25 / 4)"
    using e2 r(1) by simp
  from r(1,2,4) c force0 energy energy2 show ?thesis by simp
qed

lemma lj_potential_continuous:
  assumes "c \<noteq> 0"
  shows "isCont lj_potential c"
  unfolding lj_potential_def Let_def using assms
  by (intro continuous_intros) simp_all

lemma shifted_potential_continuous:
  assumes c: "lj_cutoff2 g \<noteq> 0"
    and shift: "lj_potential_at_cutoff g = lj_potential (lj_cutoff2 g)"
  shows "isCont (lj_potential_with_cutoff g) (lj_cutoff2 g)"
proof -
  have eq: "lj_potential_with_cutoff g
      = (\<lambda>r2. if r2 \<le> lj_cutoff2 g then lj_potential r2 - lj_potential (lj_cutoff2 g) else 0)"
    by (auto simp add: lj_potential_with_cutoff_def shift fun_eq_iff)
  have "isCont (\<lambda>r2. lj_potential r2 - lj_potential (lj_cutoff2 g)) (lj_cutoff2 g)"
    by (intro continuous_intros lj_potential_continuous [OF c])
  then have left: "continuous (at_left (lj_cutoff2 g))
      (\<lambda>r2. lj_potential r2 - lj_potential (lj_cutoff2 g))"
    by (rule continuous_at_imp_continuous_at_within)
  have right: "((\<lambda>r2. 0 :: real) \<longlongrightarrow> lj_potential (lj_cutoff2 g) - lj_potential (lj_cutoff2 g))
      (at_right (lj_cutoff2 g))"
    by simp
  show ?thesis
    unfolding eq by (rule isCont_If_ge [OF left right])
qed

subsection \<open>Claim C3: the hard cutoff and the shift\<close>

text \<open>
  Claim C3. After \<open>initialize\<close> (with a positive \<open>lj_cutoff2\<close>): for every
  \<open>r2 \<ge> lj_cutoff2\<close> the force factor and the potential are exactly zero and the
  loop body leaves forces and potential energy as they were; \<open>initialize\<close> assigns
  \<open>lj_potential_at_cutoff\<close> the value \<open>lj_potential lj_cutoff2\<close> in its one assignment
  and changes no other global; for \<open>r2 < lj_cutoff2\<close>, \<open>r2 \<noteq> 0\<close>, the potential is
  \<open>lj_potential r2\<close> minus that constant; and the potential with cutoff is continuous
  at \<open>lj_cutoff2\<close>, where it is zero.
\<close>

theorem hard_cutoff_and_shift:
  assumes g: "g = fst (initialize g0 state)"
    and c: "0 < lj_cutoff2 g0"
  shows "(\<forall>r2 \<ge> lj_cutoff2 g. lj_force_with_cutoff g r2 = 0 \<and> lj_potential_with_cutoff g r2 = 0)
       \<and> (\<forall>L pos i j out.
             lj_cutoff2 g \<le> squared_norm (displacement L (pos ! i) (pos ! j))
               \<longrightarrow> lj_pair g L pos i j out = out)
       \<and> lj_cutoff2 g = lj_cutoff2 g0
       \<and> lj_potential_at_cutoff g = lj_potential (lj_cutoff2 g0)
       \<and> (\<forall>r2. r2 \<noteq> 0 \<and> r2 < lj_cutoff2 g \<longrightarrow>
             lj_potential_with_cutoff g r2 = lj_potential r2 - lj_potential (lj_cutoff2 g0))
       \<and> isCont (lj_potential_with_cutoff g) (lj_cutoff2 g)
       \<and> lj_potential_with_cutoff g (lj_cutoff2 g) = 0"
proof -
  have c2: "lj_cutoff2 g = lj_cutoff2 g0"
    and shift: "lj_potential_at_cutoff g = lj_potential (lj_cutoff2 g0)"
    by (simp_all add: g initialize_def)
  have beyond: "\<forall>r2 \<ge> lj_cutoff2 g. lj_force_with_cutoff g r2 = 0 \<and> lj_potential_with_cutoff g r2 = 0"
    by (simp add: lj_force_with_cutoff_def lj_potential_with_cutoff_def)
  have pair: "\<forall>L pos i j out.
             lj_cutoff2 g \<le> squared_norm (displacement L (pos ! i) (pos ! j))
               \<longrightarrow> lj_pair g L pos i j out = out"
    by (simp add: lj_pair_def Let_def lj_force_with_cutoff_def lj_potential_with_cutoff_def)
  have inside: "\<forall>r2. r2 \<noteq> 0 \<and> r2 < lj_cutoff2 g \<longrightarrow>
             lj_potential_with_cutoff g r2 = lj_potential r2 - lj_potential (lj_cutoff2 g0)"
    by (simp add: lj_potential_with_cutoff_def shift)
  have cont: "isCont (lj_potential_with_cutoff g) (lj_cutoff2 g)"
    using c by (intro shifted_potential_continuous) (simp_all add: c2 shift)
  have at: "lj_potential_with_cutoff g (lj_cutoff2 g) = 0"
    by (simp add: lj_potential_with_cutoff_def)
  from beyond pair c2 shift inside cont at show ?thesis by blast
qed

theorem hard_cutoff_and_shift_witness:
  "(0::real) < lj_cutoff2 plugin_globals_init
   \<and> lj_cutoff2 (fst (initialize plugin_globals_init Map.empty)) = 25 / 4
   \<and> lj_force_with_cutoff (fst (initialize plugin_globals_init Map.empty)) (25 / 4) = 0
   \<and> lj_potential_with_cutoff (fst (initialize plugin_globals_init Map.empty)) 7 = 0
   \<and> lj_potential_with_cutoff (fst (initialize plugin_globals_init Map.empty)) 4
        = lj_potential 4 - lj_potential (25 / 4)
   \<and> isCont (lj_potential_with_cutoff (fst (initialize plugin_globals_init Map.empty))) (25 / 4)"
proof -
  have c: "(0::real) < lj_cutoff2 plugin_globals_init"
    by (simp add: plugin_globals_init_def)
  have v: "lj_cutoff2 plugin_globals_init = 25 / 4"
    by (simp add: plugin_globals_init_def)
  let ?g = "fst (initialize plugin_globals_init Map.empty)"
  note h = hard_cutoff_and_shift [OF refl c, of Map.empty]
  from h v have c2: "lj_cutoff2 ?g = 25 / 4" by simp
  from h have beyond: "\<forall>r2 \<ge> lj_cutoff2 ?g.
      lj_force_with_cutoff ?g r2 = 0 \<and> lj_potential_with_cutoff ?g r2 = 0"
    by (rule conjunct1)
  from h have inside: "\<forall>r2. r2 \<noteq> 0 \<and> r2 < lj_cutoff2 ?g \<longrightarrow>
      lj_potential_with_cutoff ?g r2 = lj_potential r2 - lj_potential (lj_cutoff2 plugin_globals_init)"
    by blast
  from h have cont: "isCont (lj_potential_with_cutoff ?g) (lj_cutoff2 ?g)"
    by blast
  have "lj_force_with_cutoff ?g (25 / 4) = 0"
    using beyond [unfolded c2] by simp
  moreover have "lj_potential_with_cutoff ?g 7 = 0"
    using beyond [unfolded c2] by simp
  moreover have "lj_potential_with_cutoff ?g 4 = lj_potential 4 - lj_potential (25 / 4)"
    using inside [unfolded c2 v] by simp
  ultimately show ?thesis
    using c c2 cont [unfolded c2] by simp
qed

section \<open>Properties of the engine\<close>

lemma fold_snoc_map:
  "fold (\<lambda>i acc. acc @ [f i]) is acc = acc @ map f is"
  by (induction "is" arbitrary: acc) simp_all

lemma MDSimulation_fields:
  "box_size (MDSimulation mt rv L n) = L"
  "nparticles (MDSimulation mt rv L n) = n"
  "positions (MDSimulation mt rv L n)
     = map (lattice_position (L / of_int (particles_per_side n + 1)) (particles_per_side n))
         [0 ..< nat n]"
  "velocities (MDSimulation mt rv L n) = map (seeded_velocity mt rv) [0 ..< nat n]"
  "forces (MDSimulation mt rv L n) = replicate (nat n) (0, 0, 0)"
  by (simp_all add: MDSimulation_def Let_def fold_snoc_map map_replicate_const)

lemma sized_MDSimulation: "sized (MDSimulation mt rv L n)"
  by (simp add: sized_def MDSimulation_fields)

text \<open>A loop that assigns element \<open>i\<close> of a vector for every index of a list.\<close>

lemma fold_update_length:
  "length (fold (\<lambda>i xs. xs [i := f i (xs ! i)]) is xs) = length xs"
  by (induction "is" arbitrary: xs) simp_all

lemma fold_update_nth:
  assumes "distinct is" "\<forall>i \<in> set is. i < length xs" "k < length xs"
  shows "fold (\<lambda>i xs. xs [i := f i (xs ! i)]) is xs ! k
           = (if k \<in> set is then f k (xs ! k) else xs ! k)"
  using assms
proof (induction "is" arbitrary: xs)
  case Nil
  then show ?case by simp
next
  case (Cons i "is")
  then show ?case
    by (auto simp add: nth_list_update)
qed

lemma fold_update_upt:
  assumes "n = length xs"
  shows "fold (\<lambda>i xs. xs [i := f i (xs ! i)]) [0 ..< n] xs = map (\<lambda>i. f i (xs ! i)) [0 ..< n]"
  using assms
  by (intro nth_equalityI) (simp_all add: fold_update_length fold_update_nth)

text \<open>The four particle loops of an iteration, each as one assignment.\<close>

lemma move_loop:
  "fold (move_particle dt) is s =
     s \<lparr> positions :=
           fold (\<lambda>i ps. ps [i :=
                   (wrap_coordinate (box_size s) (vx (ps ! i) + vx (velocities s ! i) * dt),
                    wrap_coordinate (box_size s) (vy (ps ! i) + vy (velocities s ! i) * dt),
                    wrap_coordinate (box_size s) (vz (ps ! i) + vz (velocities s ! i) * dt))])
             is (positions s) \<rparr>"
  by (induction "is" arbitrary: s) (simp_all add: move_particle_def Let_def)

lemma zero_loop:
  "fold zero_force is s =
     s \<lparr> forces := fold (\<lambda>i fs. fs [i := (0, 0, 0)]) is (forces s) \<rparr>"
  by (induction "is" arbitrary: s) (simp_all add: zero_force_def)

lemma kinetic_loop:
  "fold add_kinetic_energy is s =
     s \<lparr> kinetic_energy := kinetic_energy s
           + sum_list (map (\<lambda>i. 0.5 * vx (velocities s ! i) * vx (velocities s ! i)
                               + 0.5 * vy (velocities s ! i) * vy (velocities s ! i)
                               + 0.5 * vz (velocities s ! i) * vz (velocities s ! i)) is) \<rparr>"
  by (induction "is" arbitrary: s) (simp_all add: add_kinetic_energy_def Let_def add.assoc)

lemma velocity_loop:
  "fold (update_velocity dt) is s =
     s \<lparr> velocities :=
           fold (\<lambda>i vs. vs [i :=
                   (vx (vs ! i) + vx (forces s ! i) * dt,
                    vy (vs ! i) + vy (forces s ! i) * dt,
                    vz (vs ! i) + vz (forces s ! i) * dt)])
             is (velocities s) \<rparr>"
  by (induction "is" arbitrary: s) (simp_all add: update_velocity_def Let_def)


lemma move_loop_upt:
  assumes "length (positions s) = n"
  shows "fold (move_particle dt) [0 ..< n] s =
     s \<lparr> positions :=
           map (\<lambda>i. (wrap_coordinate (box_size s) (vx (positions s ! i) + vx (velocities s ! i) * dt),
                      wrap_coordinate (box_size s) (vy (positions s ! i) + vy (velocities s ! i) * dt),
                      wrap_coordinate (box_size s) (vz (positions s ! i) + vz (velocities s ! i) * dt)))
             [0 ..< n] \<rparr>"
  unfolding move_loop
  using fold_update_upt [where xs = "positions s" and n = n and
      f = "\<lambda>i p. (wrap_coordinate (box_size s) (vx p + vx (velocities s ! i) * dt),
                   wrap_coordinate (box_size s) (vy p + vy (velocities s ! i) * dt),
                   wrap_coordinate (box_size s) (vz p + vz (velocities s ! i) * dt))"]
    assms
  by simp

lemma zero_loop_upt:
  assumes "length (forces s) = n"
  shows "fold zero_force [0 ..< n] s = s \<lparr> forces := replicate n (0, 0, 0) \<rparr>"
  unfolding zero_loop
  using fold_update_upt [where xs = "forces s" and n = n and f = "\<lambda>i p. (0, 0, 0)"] assms
  by (simp add: map_replicate_const)

lemma velocity_loop_upt:
  assumes "length (velocities s) = n"
  shows "fold (update_velocity dt) [0 ..< n] s =
     s \<lparr> velocities :=
           map (\<lambda>i. (vx (velocities s ! i) + vx (forces s ! i) * dt,
                      vy (velocities s ! i) + vy (forces s ! i) * dt,
                      vz (velocities s ! i) + vz (forces s ! i) * dt))
             [0 ..< n] \<rparr>"
  unfolding velocity_loop
  using fold_update_upt [where xs = "velocities s" and n = n and
      f = "\<lambda>i v. (vx v + vx (forces s ! i) * dt,
                   vy v + vy (forces s ! i) * dt,
                   vz v + vz (forces s ! i) * dt)"]
    assms
  by simp

lemma kinetic_sum:
  assumes "length vs = n"
  shows "sum_list (map (\<lambda>i. 0.5 * vx (vs ! i) * vx (vs ! i)
                               + 0.5 * vy (vs ! i) * vy (vs ! i)
                               + 0.5 * vz (vs ! i) * vz (vs ! i)) [0 ..< n])
       = (\<Sum>v \<leftarrow> vs. 0.5 * vx v * vx v + 0.5 * vy v * vy v + 0.5 * vz v * (vz v :: real))"
proof -
  have "map (\<lambda>i. 0.5 * vx (vs ! i) * vx (vs ! i)
                               + 0.5 * vy (vs ! i) * vy (vs ! i)
                               + 0.5 * vz (vs ! i) * vz (vs ! i)) [0 ..< n]
      = map (\<lambda>v. 0.5 * vx v * vx v + 0.5 * vy v * vy v + 0.5 * vz v * vz v) vs"
    using assms by (intro nth_equalityI) simp_all
  then show ?thesis by simp
qed

text \<open>One iteration, field by field.\<close>

lemma md_step_state:
  assumes "sized s"
  shows "fst (md_step dt istep (s, out)) =
     s \<lparr> positions :=
           map (\<lambda>i. (wrap_coordinate (box_size s) (vx (positions s ! i) + vx (velocities s ! i) * dt),
                      wrap_coordinate (box_size s) (vy (positions s ! i) + vy (velocities s ! i) * dt),
                      wrap_coordinate (box_size s) (vz (positions s ! i) + vz (velocities s ! i) * dt)))
             [0 ..< nat (nparticles s)],
         potential_energy := 0,
         kinetic_energy :=
           (\<Sum>v \<leftarrow> velocities s. 0.5 * vx v * vx v + 0.5 * vy v * vy v + 0.5 * vz v * vz v),
         forces := replicate (nat (nparticles s)) (0, 0, 0) \<rparr>"
proof -
  let ?n = "nat (nparticles s)"
  from assms have len: "length (positions s) = ?n" "length (velocities s) = ?n" "length (forces s) = ?n"
    by (simp_all add: sized_def)
  have vel: "map (\<lambda>i. (vx (velocities s ! i) + vx (replicate ?n (0, 0, 0 :: real) ! i) * dt,
                      vy (velocities s ! i) + vy (replicate ?n (0 :: real, 0, 0 :: real) ! i) * dt,
                      vz (velocities s ! i) + vz (replicate ?n (0 :: real, 0 :: real, 0) ! i) * dt))
             [0 ..< ?n] = velocities s"
    using len(2) by (intro nth_equalityI) simp_all
  show ?thesis
    unfolding md_step_def Let_def fst_conv
    using kinetic_sum [OF len(2)]
    by (simp add: move_loop_upt [OF len(1)] zero_loop_upt len kinetic_loop
          velocity_loop_upt vel)
qed

lemma md_step_output:
  "snd (md_step dt istep (s, out)) =
     out @ [Iteration (int istep)
              (potential_energy (fst (md_step dt istep (s, out))))
              (kinetic_energy (fst (md_step dt istep (s, out))))
              (potential_energy (fst (md_step dt istep (s, out)))
                + kinetic_energy (fst (md_step dt istep (s, out))))]"
  by (simp add: md_step_def Let_def)

lemma sized_md_step:
  assumes "sized s"
  shows "sized (fst (md_step dt istep (s, out)))"
  using assms unfolding md_step_state [OF assms] by (simp add: sized_def)


lemma md_step_fields:
  assumes "sized s"
  shows "box_size (fst (md_step dt istep (s, out))) = box_size s"
    and "nparticles (fst (md_step dt istep (s, out))) = nparticles s"
    and "velocities (fst (md_step dt istep (s, out))) = velocities s"
    and "forces (fst (md_step dt istep (s, out))) = replicate (nat (nparticles s)) (0, 0, 0)"
    and "potential_energy (fst (md_step dt istep (s, out))) = 0"
    and "kinetic_energy (fst (md_step dt istep (s, out)))
           = (\<Sum>v \<leftarrow> velocities s. 0.5 * vx v * vx v + 0.5 * vy v * vy v + 0.5 * vz v * vz v)"
    and "positions (fst (md_step dt istep (s, out)))
           = map (\<lambda>i. (wrap_coordinate (box_size s) (vx (positions s ! i) + vx (velocities s ! i) * dt),
                      wrap_coordinate (box_size s) (vy (positions s ! i) + vy (velocities s ! i) * dt),
                      wrap_coordinate (box_size s) (vz (positions s ! i) + vz (velocities s ! i) * dt)))
             [0 ..< nat (nparticles s)]"
  unfolding md_step_state [OF assms] by simp_all

text \<open>A property of the state that every iteration keeps holds after the loop.\<close>

lemma steps_invariant:
  assumes "P (fst so)"
    and "\<And>t istep out. P t \<Longrightarrow> P (fst (md_step dt istep (t, out)))"
  shows "P (fst (fold (md_step dt) is so))"
  using assms(1)
proof (induction "is" arbitrary: so)
  case Nil
  then show ?case by simp
next
  case (Cons i "is")
  have "P (fst (md_step dt i (fst so, snd so)))"
    by (rule assms(2)) (rule Cons.prems)
  then have "P (fst (md_step dt i so))" by simp
  then show ?case by (simp add: Cons.IH)
qed

lemma steps_output_length:
  "length (snd (fold (md_step dt) is so)) = length (snd so) + length is"
proof (induction "is" arbitrary: so)
  case Nil
  then show ?case by simp
next
  case (Cons i "is")
  have "length (snd (md_step dt i so)) = length (snd so) + 1"
    by (simp add: md_step_def Let_def)
  then show ?case by (simp add: Cons.IH)
qed

lemma steps_output_nth:
  assumes "k < length is"
  shows "\<exists>pe ke. snd (fold (md_step dt) is so) ! (length (snd so) + k)
            = Iteration (int (is ! k)) pe ke (pe + ke)"
  using assms
proof (induction "is" arbitrary: so k)
  case Nil
  then show ?case by simp
next
  case (Cons i "is")
  have len: "length (snd (md_step dt i so)) = length (snd so) + 1"
    by (simp add: md_step_def Let_def)
  show ?case
  proof (cases k)
    case 0
    have keep: "\<And>js so' m. m < length (snd so')
        \<Longrightarrow> snd (fold (md_step dt) js so') ! m = snd so' ! m"
    proof -
      fix js :: "nat list" and so' :: "md_state \<times> output_line list" and m
      assume "m < length (snd so')"
      then show "snd (fold (md_step dt) js so') ! m = snd so' ! m"
      proof (induction js arbitrary: so')
        case Nil
        then show ?case by simp
      next
        case (Cons j js)
        have "snd (md_step dt j so') = snd so' @ [Iteration (int j)
              (potential_energy (fst (md_step dt j so'))) (kinetic_energy (fst (md_step dt j so')))
              (potential_energy (fst (md_step dt j so')) + kinetic_energy (fst (md_step dt j so')))]"
          by (simp add: md_step_def Let_def)
        with Cons show ?case by (simp add: nth_append)
      qed
    qed
    have "snd (md_step dt i so) ! length (snd so) = Iteration (int i)
              (potential_energy (fst (md_step dt i so))) (kinetic_energy (fst (md_step dt i so)))
              (potential_energy (fst (md_step dt i so)) + kinetic_energy (fst (md_step dt i so)))"
      by (simp add: md_step_def Let_def)
    with 0 keep [of "length (snd so)" "md_step dt i so" "is"] len show ?thesis
      by auto
  next
    case (Suc k')
    with Cons.prems have "k' < length is" by simp
    from Cons.IH [OF this, of "md_step dt i so"] Suc len show ?thesis
      by (simp add: add.commute add.left_commute)
  qed
qed

lemma run_output:
  "length (snd (run nsteps dt s)) = nat nsteps + 1"
  "last (snd (run nsteps dt s)) = Simulation_completed"
  "k < nat nsteps \<Longrightarrow> \<exists>pe ke. snd (run nsteps dt s) ! k = Iteration (int k) pe ke (pe + ke)"
proof -
  show "length (snd (run nsteps dt s)) = nat nsteps + 1"
    by (simp add: run_def Let_def steps_output_length)
  show "last (snd (run nsteps dt s)) = Simulation_completed"
    by (simp add: run_def Let_def)
  assume k: "k < nat nsteps"
  then have "k < length [0 ..< nat nsteps]" by simp
  from steps_output_nth [OF this, of dt "(s, [])"] k
  show "\<exists>pe ke. snd (run nsteps dt s) ! k = Iteration (int k) pe ke (pe + ke)"
    by (simp add: run_def Let_def nth_append steps_output_length)
qed


lemma steps_forces_zero:
  assumes "sized s" "is \<noteq> []"
  shows "forces (fst (fold (md_step dt) is (s, out))) = replicate (nat (nparticles s)) (0, 0, 0)
       \<and> potential_energy (fst (fold (md_step dt) is (s, out))) = 0"
proof -
  let ?P = "\<lambda>t. sized t \<and> nparticles t = nparticles s
      \<and> forces t = replicate (nat (nparticles s)) (0, 0, 0) \<and> potential_energy t = 0"
  from assms(2) obtain i js where "is": "is = i # js" by (cases "is") auto
  have "?P (fst (fold (md_step dt) js (md_step dt i (s, out))))"
  proof (rule steps_invariant [where P = ?P])
    show "?P (fst (md_step dt i (s, out)))"
      using sized_md_step [OF assms(1)] md_step_fields(2,4,5) [OF assms(1)] by simp
  next
    fix t istep out'
    assume "?P t"
    then show "?P (fst (md_step dt istep (t, out')))"
      using sized_md_step [of t] md_step_fields(2,4,5) [of t] by simp
  qed
  then show ?thesis by (simp add: "is")
qed

lemma run_forces_zero:
  assumes "sized s" "0 < nsteps"
  shows "forces (fst (run nsteps dt s)) = replicate (nat (nparticles s)) (0, 0, 0)"
    and "potential_energy (fst (run nsteps dt s)) = 0"
proof -
  from assms(2) have "[0 ..< nat nsteps] \<noteq> []" by simp
  from steps_forces_zero [OF assms(1) this, of dt "[]"]
  show "forces (fst (run nsteps dt s)) = replicate (nat (nparticles s)) (0, 0, 0)"
    and "potential_energy (fst (run nsteps dt s)) = 0"
    by (simp_all add: run_def Let_def)
qed


lemma upt_2: "[0 ..< 2] = [0, Suc 0]"
  by (simp add: numeral_2_eq_2)

lemma move_loop_facts:
  "velocities (fold (move_particle dt) is s) = velocities s"
  "box_size (fold (move_particle dt) is s) = box_size s"
  "length (positions (fold (move_particle dt) is s)) = length (positions s)"
  "distinct is \<Longrightarrow> \<forall>i \<in> set is. i < length (positions s) \<Longrightarrow> k < length (positions s)
     \<Longrightarrow> k \<notin> set is \<Longrightarrow> positions (fold (move_particle dt) is s) ! k = positions s ! k"
proof -
  let ?f = "\<lambda>i p. (wrap_coordinate (box_size s) (vx p + vx (velocities s ! i) * dt),
                     wrap_coordinate (box_size s) (vy p + vy (velocities s ! i) * dt),
                     wrap_coordinate (box_size s) (vz p + vz (velocities s ! i) * dt))"
  show "velocities (fold (move_particle dt) is s) = velocities s"
    "box_size (fold (move_particle dt) is s) = box_size s"
    by (simp_all add: move_loop)
  show "length (positions (fold (move_particle dt) is s)) = length (positions s)"
    unfolding move_loop using fold_update_length [where f = ?f] by simp
  assume "distinct is" "\<forall>i \<in> set is. i < length (positions s)" "k < length (positions s)"
    "k \<notin> set is"
  then show "positions (fold (move_particle dt) is s) ! k = positions s ! k"
    unfolding move_loop using fold_update_nth [where f = ?f and xs = "positions s" and k = k]
    by simp
qed

lemma velocity_loop_facts:
  "forces (fold (update_velocity dt) is s) = forces s"
  "length (velocities (fold (update_velocity dt) is s)) = length (velocities s)"
  "distinct is \<Longrightarrow> \<forall>i \<in> set is. i < length (velocities s) \<Longrightarrow> k < length (velocities s)
     \<Longrightarrow> k \<notin> set is \<Longrightarrow> velocities (fold (update_velocity dt) is s) ! k = velocities s ! k"
proof -
  let ?f = "\<lambda>i v. (vx v + vx (forces s ! i) * dt,
                     vy v + vy (forces s ! i) * dt,
                     vz v + vz (forces s ! i) * dt)"
  show "forces (fold (update_velocity dt) is s) = forces s"
    by (simp add: velocity_loop)
  show "length (velocities (fold (update_velocity dt) is s)) = length (velocities s)"
    unfolding velocity_loop using fold_update_length [where f = ?f] by simp
  assume "distinct is" "\<forall>i \<in> set is. i < length (velocities s)" "k < length (velocities s)"
    "k \<notin> set is"
  then show "velocities (fold (update_velocity dt) is s) ! k = velocities s ! k"
    unfolding velocity_loop using fold_update_nth [where f = ?f and xs = "velocities s" and k = k]
    by simp
qed

lemma logged_bodies:
  "move_particle_logged dt i (t, es) =
     (move_particle dt i t,
      es @ [Position_written i (velocities t ! i) (positions (move_particle dt i t) ! i)])"
  "add_kinetic_energy_logged i (t, es) =
     (add_kinetic_energy i t,
      es @ [Kinetic_energy_added i (velocities t ! i) (kinetic_energy (add_kinetic_energy i t))])"
  "update_velocity_logged dt i (t, es) =
     (update_velocity dt i t,
      es @ [Velocity_written i (forces t ! i) (velocities (update_velocity dt i t) ! i)])"
  by (simp_all add: move_particle_logged_def add_kinetic_energy_logged_def
        update_velocity_logged_def Let_def)

lemma move_loop_logged:
  assumes "k \<le> length (positions s)"
  shows "fold (move_particle_logged dt) [0 ..< k] (s, es) =
     (fold (move_particle dt) [0 ..< k] s,
      es @ map (\<lambda>i. Position_written i (velocities s ! i)
                   (wrap_coordinate (box_size s) (vx (positions s ! i) + vx (velocities s ! i) * dt),
                    wrap_coordinate (box_size s) (vy (positions s ! i) + vy (velocities s ! i) * dt),
                    wrap_coordinate (box_size s) (vz (positions s ! i) + vz (velocities s ! i) * dt)))
              [0 ..< k])"
  using assms
proof (induction k)
  case 0
  then show ?case by simp
next
  case (Suc k)
  let ?t = "fold (move_particle dt) [0 ..< k] s"
  from Suc.prems have k: "k < length (positions s)" by simp
  have same: "positions ?t ! k = positions s ! k"
    using k by (intro move_loop_facts(4)) simp_all
  have len: "k < length (positions ?t)"
    using k by (simp add: move_loop_facts(3))
  have written: "positions (move_particle dt k ?t) ! k =
      (wrap_coordinate (box_size s) (vx (positions s ! k) + vx (velocities s ! k) * dt),
       wrap_coordinate (box_size s) (vy (positions s ! k) + vy (velocities s ! k) * dt),
       wrap_coordinate (box_size s) (vz (positions s ! k) + vz (velocities s ! k) * dt))"
    using len by (simp add: move_particle_def Let_def move_loop_facts(1,2) same)
  from Suc.prems have "k \<le> length (positions s)" by simp
  from Suc.IH [OF this] show ?case
    by (simp add: logged_bodies written move_loop_facts(1))
qed

lemma zero_loop_logged:
  "fold zero_force_logged is (s, es) = (fold zero_force is s, es @ map Force_zeroed is)"
  by (induction "is" arbitrary: s es) (simp_all add: zero_force_logged_def)

lemma kinetic_loop_logged:
  "fold add_kinetic_energy_logged [0 ..< k] (s, es) =
     (fold add_kinetic_energy [0 ..< k] s,
      es @ map (\<lambda>i. Kinetic_energy_added i (velocities s ! i)
                   (kinetic_energy s
                    + sum_list (map (\<lambda>j. 0.5 * vx (velocities s ! j) * vx (velocities s ! j)
                               + 0.5 * vy (velocities s ! j) * vy (velocities s ! j)
                               + 0.5 * vz (velocities s ! j) * vz (velocities s ! j)) [0 ..< Suc i])))
              [0 ..< k])"
proof (induction k)
  case 0
  then show ?case by simp
next
  case (Suc k)
  have "add_kinetic_energy k (fold add_kinetic_energy [0 ..< k] s)
      = fold add_kinetic_energy [0 ..< Suc k] s"
    by simp
  then have ke: "kinetic_energy (add_kinetic_energy k (fold add_kinetic_energy [0 ..< k] s))
      = kinetic_energy s
          + sum_list (map (\<lambda>j. 0.5 * vx (velocities s ! j) * vx (velocities s ! j)
                               + 0.5 * vy (velocities s ! j) * vy (velocities s ! j)
                               + 0.5 * vz (velocities s ! j) * vz (velocities s ! j)) [0 ..< Suc k])"
    by (simp only: kinetic_loop) simp
  have v: "velocities (fold add_kinetic_energy [0 ..< k] s) = velocities s"
    by (simp add: kinetic_loop)
  from Suc show ?case
    by (simp add: logged_bodies v ke del: sum_list.Cons)
qed

lemma velocity_loop_logged:
  assumes "k \<le> length (velocities s)"
  shows "fold (update_velocity_logged dt) [0 ..< k] (s, es) =
     (fold (update_velocity dt) [0 ..< k] s,
      es @ map (\<lambda>i. Velocity_written i (forces s ! i)
                   (vx (velocities s ! i) + vx (forces s ! i) * dt,
                    vy (velocities s ! i) + vy (forces s ! i) * dt,
                    vz (velocities s ! i) + vz (forces s ! i) * dt))
              [0 ..< k])"
  using assms
proof (induction k)
  case 0
  then show ?case by simp
next
  case (Suc k)
  let ?t = "fold (update_velocity dt) [0 ..< k] s"
  from Suc.prems have k: "k < length (velocities s)" by simp
  have same: "velocities ?t ! k = velocities s ! k"
    using k by (intro velocity_loop_facts(3)) simp_all
  have len: "k < length (velocities ?t)"
    using k by (simp add: velocity_loop_facts(2))
  have written: "velocities (update_velocity dt k ?t) ! k =
      (vx (velocities s ! k) + vx (forces s ! k) * dt,
       vy (velocities s ! k) + vy (forces s ! k) * dt,
       vz (velocities s ! k) + vz (forces s ! k) * dt)"
    using len by (simp add: update_velocity_def Let_def velocity_loop_facts(1) same)
  from Suc.prems have "k \<le> length (velocities s)" by simp
  from Suc.IH [OF this] show ?case
    by (simp add: logged_bodies written velocity_loop_facts(1))
qed


lemma partial_kinetic_sum:
  assumes "Suc i \<le> length vs"
  shows "sum_list (map (\<lambda>j. 0.5 * vx (vs ! j) * vx (vs ! j)
                               + 0.5 * vy (vs ! j) * vy (vs ! j)
                               + 0.5 * vz (vs ! j) * vz (vs ! j)) [0 ..< Suc i])
       = (\<Sum>v \<leftarrow> take (Suc i) vs. 0.5 * vx v * vx v + 0.5 * vy v * vy v + 0.5 * vz v * (vz v :: real))"
proof -
  have "map (\<lambda>j. 0.5 * vx (vs ! j) * vx (vs ! j)
                               + 0.5 * vy (vs ! j) * vy (vs ! j)
                               + 0.5 * vz (vs ! j) * vz (vs ! j)) [0 ..< Suc i]
      = map (\<lambda>v. 0.5 * vx v * vx v + 0.5 * vy v * vy v + 0.5 * vz v * vz v) (take (Suc i) vs)"
    using assms by (intro nth_equalityI) (simp_all del: upt_Suc)
  then show ?thesis by (simp only:)
qed

lemma md_step_logged_eq:
  assumes s: "sized s"
  shows "md_step_logged dt istep (s, es) =
     (fst (md_step dt istep (s, out)),
      es
      @ map (\<lambda>i. Position_written i (velocities s ! i)
                (wrap_coordinate (box_size s) (vx (positions s ! i) + vx (velocities s ! i) * dt),
                 wrap_coordinate (box_size s) (vy (positions s ! i) + vy (velocities s ! i) * dt),
                 wrap_coordinate (box_size s) (vz (positions s ! i) + vz (velocities s ! i) * dt)))
          [0 ..< nat (nparticles s)]
      @ [Potential_energy_zeroed, Kinetic_energy_zeroed]
      @ map Force_zeroed [0 ..< nat (nparticles s)]
      @ map (\<lambda>i. Kinetic_energy_added i (velocities s ! i)
                (\<Sum>v \<leftarrow> take (Suc i) (velocities s).
                    0.5 * vx v * vx v + 0.5 * vy v * vy v + 0.5 * vz v * vz v))
          [0 ..< nat (nparticles s)]
      @ map (\<lambda>i. Velocity_written i (0, 0, 0)
                (vx (velocities s ! i) + 0 * dt,
                 vy (velocities s ! i) + 0 * dt,
                 vz (velocities s ! i) + 0 * dt))
          [0 ..< nat (nparticles s)]
      @ [Printed (Iteration (int istep) 0
                   (\<Sum>v \<leftarrow> velocities s. 0.5 * vx v * vx v + 0.5 * vy v * vy v + 0.5 * vz v * vz v)
                   (0 + (\<Sum>v \<leftarrow> velocities s.
                           0.5 * vx v * vx v + 0.5 * vy v * vy v + 0.5 * vz v * vz v)))])"
proof -
  let ?n = "nat (nparticles s)"
  from s have len: "length (positions s) = ?n" "length (velocities s) = ?n" "length (forces s) = ?n"
    by (simp_all add: sized_def)
  let ?s1 = "fold (move_particle dt) [0 ..< ?n] s"
  let ?s2 = "?s1 \<lparr> potential_energy := 0 \<rparr> \<lparr> kinetic_energy := 0 \<rparr>"
  let ?s3 = "fold zero_force [0 ..< ?n] ?s2"
  let ?s4 = "fold add_kinetic_energy [0 ..< ?n] ?s3"
  let ?s5 = "fold (update_velocity dt) [0 ..< ?n] ?s4"
  have s5: "?s5 = fst (md_step dt istep (s, out))"
    by (simp add: md_step_def Let_def)
  have v3: "velocities ?s3 = velocities s" "kinetic_energy ?s3 = 0"
    by (simp_all add: zero_loop move_loop)
  have v4: "velocities ?s4 = velocities s" "forces ?s4 = replicate ?n (0, 0, 0)"
    by (simp_all add: kinetic_loop zero_loop_upt move_loop len)
  have l4: "?n \<le> length (velocities ?s4)" by (simp add: v4 len)
  have l0: "?n \<le> length (positions s)" by (simp add: len)
  have ke: "map (\<lambda>i. Kinetic_energy_added i (velocities s ! i)
                   (0 + sum_list (map (\<lambda>j. 0.5 * vx (velocities s ! j) * vx (velocities s ! j)
                               + 0.5 * vy (velocities s ! j) * vy (velocities s ! j)
                               + 0.5 * vz (velocities s ! j) * vz (velocities s ! j)) [0 ..< Suc i])))
              [0 ..< ?n]
      = map (\<lambda>i. Kinetic_energy_added i (velocities s ! i)
                (\<Sum>v \<leftarrow> take (Suc i) (velocities s).
                    0.5 * vx v * vx v + 0.5 * vy v * vy v + 0.5 * vz v * vz v))
          [0 ..< ?n]"
  proof (intro map_cong refl)
    fix i
    assume "i \<in> set [0 ..< ?n]"
    then have "Suc i \<le> length (velocities s)" using len(2) by simp
    then show "Kinetic_energy_added i (velocities s ! i)
                   (0 + sum_list (map (\<lambda>j. 0.5 * vx (velocities s ! j) * vx (velocities s ! j)
                               + 0.5 * vy (velocities s ! j) * vy (velocities s ! j)
                               + 0.5 * vz (velocities s ! j) * vz (velocities s ! j)) [0 ..< Suc i]))
        = Kinetic_energy_added i (velocities s ! i)
                (\<Sum>v \<leftarrow> take (Suc i) (velocities s).
                    0.5 * vx v * vx v + 0.5 * vy v * vy v + 0.5 * vz v * vz v)"
      by (simp only: partial_kinetic_sum add_0)
  qed
  have ve: "map (\<lambda>i. Velocity_written i (replicate ?n (0, 0, 0) ! i)
                   (vx (velocities s ! i) + vx (replicate ?n (0 :: real, 0 :: real, 0 :: real) ! i) * dt,
                    vy (velocities s ! i) + vy (replicate ?n (0 :: real, 0 :: real, 0 :: real) ! i) * dt,
                    vz (velocities s ! i) + vz (replicate ?n (0 :: real, 0 :: real, 0 :: real) ! i) * dt))
              [0 ..< ?n]
      = map (\<lambda>i. Velocity_written i (0, 0, 0)
                (vx (velocities s ! i) + 0 * dt,
                 vy (velocities s ! i) + 0 * dt,
                 vz (velocities s ! i) + 0 * dt))
          [0 ..< ?n]"
    by (intro map_cong refl) simp
  have pe: "potential_energy (fst (md_step dt istep (s, out))) = 0"
    "kinetic_energy (fst (md_step dt istep (s, out)))
       = (\<Sum>v \<leftarrow> velocities s. 0.5 * vx v * vx v + 0.5 * vy v * vy v + 0.5 * vz v * vz v)"
    by (rule md_step_fields [OF s])+
  have "md_step_logged dt istep (s, es) =
     (?s5,
      es
      @ map (\<lambda>i. Position_written i (velocities s ! i)
                (wrap_coordinate (box_size s) (vx (positions s ! i) + vx (velocities s ! i) * dt),
                 wrap_coordinate (box_size s) (vy (positions s ! i) + vy (velocities s ! i) * dt),
                 wrap_coordinate (box_size s) (vz (positions s ! i) + vz (velocities s ! i) * dt)))
          [0 ..< ?n]
      @ [Potential_energy_zeroed, Kinetic_energy_zeroed]
      @ map Force_zeroed [0 ..< ?n]
      @ map (\<lambda>i. Kinetic_energy_added i (velocities s ! i)
                   (0 + sum_list (map (\<lambda>j. 0.5 * vx (velocities s ! j) * vx (velocities s ! j)
                               + 0.5 * vy (velocities s ! j) * vy (velocities s ! j)
                               + 0.5 * vz (velocities s ! j) * vz (velocities s ! j)) [0 ..< Suc i])))
              [0 ..< ?n]
      @ map (\<lambda>i. Velocity_written i (replicate ?n (0, 0, 0) ! i)
                   (vx (velocities s ! i) + vx (replicate ?n (0 :: real, 0 :: real, 0 :: real) ! i) * dt,
                    vy (velocities s ! i) + vy (replicate ?n (0 :: real, 0 :: real, 0 :: real) ! i) * dt,
                    vz (velocities s ! i) + vz (replicate ?n (0 :: real, 0 :: real, 0 :: real) ! i) * dt))
              [0 ..< ?n]
      @ [Printed (Iteration (int istep) (potential_energy ?s5) (kinetic_energy ?s5)
                   (potential_energy ?s5 + kinetic_energy ?s5))])"
    unfolding md_step_logged_def Let_def fst_conv snd_conv
      move_loop_logged [OF l0] zero_loop_logged
      kinetic_loop_logged [where s = ?s3, unfolded v3]
      velocity_loop_logged [OF l4, unfolded v4]
    by (simp only: append_assoc append_Cons append_Nil)
  then show ?thesis
    unfolding ke ve s5 pe by simp
qed


text \<open>The logged iteration and the logged run compute the states of \<open>md_step\<close> and \<open>run\<close>.\<close>

lemma md_step_logged_state:
  assumes "sized s"
  shows "fst (md_step_logged dt istep (s, es)) = fst (md_step dt istep (s, out))"
  by (simp add: md_step_logged_eq [OF assms, where out = out])

lemma steps_logged_state:
  assumes "sized s"
  shows "fst (fold (md_step_logged dt) is (s, es)) = fst (fold (md_step dt) is (s, out))
       \<and> sized (fst (fold (md_step_logged dt) is (s, es)))"
  using assms
proof (induction "is" arbitrary: s es out)
  case Nil
  then show ?case by simp
next
  case (Cons i "is")
  let ?s' = "fst (md_step dt i (s, out))"
  have a: "md_step_logged dt i (s, es) = (?s', snd (md_step_logged dt i (s, es)))"
    using md_step_logged_state [OF Cons.prems, of dt i es out] by (simp add: prod_eq_iff)
  have b: "md_step dt i (s, out) = (?s', snd (md_step dt i (s, out)))"
    by simp
  have s': "sized ?s'" by (rule sized_md_step [OF Cons.prems])
  from Cons.IH [OF s', of "snd (md_step_logged dt i (s, es))" "snd (md_step dt i (s, out))"]
  show ?case
    unfolding fold_Cons comp_def by (subst a, subst (2) a, subst b) simp
qed

lemma run_logged_state:
  assumes "sized s"
  shows "fst (run_logged nsteps dt s) = fst (run nsteps dt s)"
  using steps_logged_state [OF assms, of dt "[0 ..< nat nsteps]" "[]" "[]"]
  by (simp add: run_logged_def run_def Let_def)


subsection \<open>Claim C7: the order of the updates in an iteration\<close>



lemma cube_powr_third:
  fixes x :: real
  assumes "0 \<le> x"
  shows "(x ^ 3) powr (1 / 3) = x"
proof (cases "x = 0")
  case True
  then show ?thesis by simp
next
  case False
  with assms have x: "0 < x" by simp
  have "(x ^ 3) powr (1 / 3) = root 3 (x ^ 3)"
    using x root_powr_inverse [of 3 "x ^ 3"] by simp
  also have "\<dots> = x"
    using assms real_root_power_cancel [of 3 x] by simp
  finally show ?thesis .
qed

lemma particles_per_side_unique:
  assumes "0 \<le> k" "(k - 1) ^ 3 < n" "n \<le> k ^ 3"
  shows "particles_per_side n = k"
proof (cases "k = 0")
  case True
  with assms have "n = 0" by simp
  with True show ?thesis by (simp add: particles_per_side_def)
next
  case False
  with assms(1) have k: "1 \<le> k" by simp
  then have "0 \<le> (k - 1) ^ 3" by simp
  with assms(2) have n: "0 < n" by linarith
  have up: "(of_int n :: real) powr (1 / 3) \<le> of_int k"
  proof -
    from assms(3) have "(of_int n :: real) \<le> of_int (k ^ 3)"
      by (simp only: of_int_le_iff)
    then have "(of_int n :: real) \<le> of_int k ^ 3" by simp
    then have "(of_int n :: real) powr (1 / 3) \<le> (of_int k ^ 3) powr (1 / 3)"
      using n by (intro powr_mono2) simp_all
    also have "\<dots> = of_int k" using k by (intro cube_powr_third) simp
    finally show ?thesis .
  qed
  have low: "of_int k - 1 < (of_int n :: real) powr (1 / 3)"
  proof -
    from assms(2) have "(of_int ((k - 1) ^ 3) :: real) < of_int n"
      by (simp only: of_int_less_iff)
    then have "(of_int k - 1 :: real) ^ 3 < of_int n" by simp
    then have "((of_int k - 1 :: real) ^ 3) powr (1 / 3) < (of_int n) powr (1 / 3)"
      using k by (intro powr_less_mono2) simp_all
    moreover have "((of_int k - 1 :: real) ^ 3) powr (1 / 3) = of_int k - 1"
      using k by (intro cube_powr_third) simp
    ultimately show ?thesis by simp
  qed
  from up low show ?thesis
    unfolding particles_per_side_def by (intro ceiling_unique) simp_all
qed

lemma particles_per_side_bounds:
  assumes "0 \<le> n"
  shows "0 \<le> particles_per_side n"
    and "(particles_per_side n - 1) ^ 3 < n"
    and "n \<le> particles_per_side n ^ 3"
proof -
  let ?x = "(of_int n :: real) powr (1 / 3)"
  let ?p = "particles_per_side n"
  have x0: "0 \<le> ?x" by simp
  have x3: "?x ^ 3 = of_int n"
  proof (cases "n = 0")
    case True
    then show ?thesis by simp
  next
    case False
    with assms have pos: "0 < (of_int n :: real)" by simp
    then have "?x = root 3 (of_int n)"
      using root_powr_inverse [of 3 "of_int n"] by simp
    then show ?thesis
      using pos real_root_pow_pos2 [of 3 "of_int n"] by simp
  qed
  have ceil: "of_int ?p - 1 < ?x" "?x \<le> of_int ?p"
    unfolding particles_per_side_def by linarith+
  from x0 ceil(2) have p0r: "(0 :: real) \<le> of_int ?p" by linarith
  then show p0: "0 \<le> ?p" by simp
  from ceil(2) x0 have "?x ^ 3 \<le> (of_int ?p) ^ 3"
    by (intro power_mono) simp_all
  then have "(of_int n :: real) \<le> of_int (?p ^ 3)" by (simp add: x3)
  then show "n \<le> ?p ^ 3" by (simp only: of_int_le_iff)
  show "(?p - 1) ^ 3 < n"
  proof (cases "?p = 0")
    case True
    with assms show ?thesis by simp
  next
    case False
    with p0 have "(0 :: real) \<le> of_int ?p - 1" by simp
    with ceil(1) have "(of_int ?p - 1) ^ 3 < ?x ^ 3"
      by (intro power_strict_mono) simp_all
    then have "(of_int ((?p - 1) ^ 3) :: real) < of_int n" by (simp add: x3)
    then show ?thesis by (simp only: of_int_less_iff)
  qed
qed

lemma particles_per_side_no_overflow:
  assumes "0 \<le> n" "n < 2 ^ 31"
  shows "0 \<le> particles_per_side n" "particles_per_side n \<le> 1291"
    and "particles_per_side n * particles_per_side n < 2 ^ 31"
    and "particles_per_side n + 1 < 2 ^ 31"
proof -
  let ?p = "particles_per_side n"
  note b = particles_per_side_bounds [OF assms(1)]
  show p0: "0 \<le> ?p" by (rule b(1))
  show p: "?p \<le> 1291"
  proof (rule ccontr)
    assume "\<not> ?p \<le> 1291"
    then have "1291 \<le> ?p - 1" by simp
    then have "(1291 :: int) ^ 3 \<le> (?p - 1) ^ 3" by (intro power_mono) simp_all
    with b(2) assms(2) show False by simp
  qed
  from p0 p have "?p * ?p \<le> 1291 * 1291" by (intro mult_mono) simp_all
  then show "?p * ?p < 2 ^ 31" by simp
  from p show "?p + 1 < 2 ^ 31" by simp
qed

lemma lattice_slot_bounds:
  assumes p: "0 < p" and i: "int i < p ^ 3"
  shows "0 \<le> int i mod p" "int i mod p < p"
    and "0 \<le> (int i div p) mod p" "(int i div p) mod p < p"
    and "0 \<le> int i div (p * p)" "int i div (p * p) < p"
    and "int i = int i mod p + p * ((int i div p) mod p) + p * p * (int i div (p * p))"
proof -
  from p show "0 \<le> int i mod p" "int i mod p < p"
    and "0 \<le> (int i div p) mod p" "(int i div p) mod p < p"
    by simp_all
  from p have pp: "0 < p * p" by simp
  then show "0 \<le> int i div (p * p)"
    by (simp add: pos_imp_zdiv_nonneg_iff)
  have "int i < p * (p * p)" using i by (simp add: power3_eq_cube mult.assoc)
  moreover have "(p * p) * (int i div (p * p)) + int i mod (p * p) = int i" by simp
  moreover have "0 \<le> int i mod (p * p)" using pp by simp
  ultimately have "(p * p) * (int i div (p * p)) < (p * p) * p" by linarith
  then show "int i div (p * p) < p"
    using pp by (simp only: mult_less_cancel_left_pos)
  have "int i div (p * p) = (int i div p) div p"
    using p by (simp add: zdiv_zmult2_eq)
  moreover have "int i div p = p * ((int i div p) div p) + (int i div p) mod p" by simp
  moreover have "int i = p * (int i div p) + int i mod p" by simp
  ultimately have "int i = p * (p * (int i div (p * p)) + (int i div p) mod p) + int i mod p"
    by simp
  then show "int i = int i mod p + p * ((int i div p) mod p) + p * p * (int i div (p * p))"
    by (simp add: algebra_simps)
qed


lemma lattice_slot_inj:
  assumes p: "0 < p" and i: "int i < p ^ 3" and j: "int j < p ^ 3"
    and eq: "lattice_slot p i = lattice_slot p j"
  shows "i = j"
proof -
  from eq have "int i mod p = int j mod p" "(int i div p) mod p = (int j div p) mod p"
    "int i div (p * p) = int j div (p * p)"
    by (simp_all add: lattice_slot_def)
  with lattice_slot_bounds(7) [OF p i] lattice_slot_bounds(7) [OF p j]
  have "int i = int j" by simp
  then show ?thesis by simp
qed

lemma lattice_coordinate_bounds:
  fixes L :: real
  assumes "0 < L" "0 < p" "0 \<le> k" "k < p"
  shows "0 < L / of_int (p + 1) * of_int k + 0.5 * (L / of_int (p + 1))"
    and "L / of_int (p + 1) * of_int k + 0.5 * (L / of_int (p + 1)) < L"
proof -
  let ?sp = "L / of_int (p + 1)"
  from assms have sp: "0 < ?sp" by simp
  have e: "?sp * of_int k + 0.5 * ?sp = ?sp * (of_int k + 1 / 2)"
    by (simp add: algebra_simps)
  from assms have k0: "(0 :: real) \<le> of_int k" by simp
  then have "(0 :: real) < of_int k + 1 / 2" by linarith
  with sp show "0 < ?sp * of_int k + 0.5 * ?sp"
    unfolding e by (rule mult_pos_pos)
  from assms have "(of_int k :: real) < of_int p" by (simp only: of_int_less_iff)
  then have "(of_int k + 1 / 2 :: real) < of_int (p + 1)" by simp
  with sp have "?sp * (of_int k + 1 / 2) < ?sp * of_int (p + 1)"
    by (rule mult_strict_left_mono [rotated])
  also have "\<dots> = L" using assms by simp
  finally show "?sp * of_int k + 0.5 * ?sp < L" unfolding e .
qed

lemma lattice_coordinate_inj:
  fixes sp :: real
  assumes "0 < sp" "sp * of_int k + 0.5 * sp = sp * of_int m + 0.5 * sp"
  shows "k = (m :: int)"
  using assms by simp

lemma lattice_position_inj:
  assumes "0 < sp" "lattice_position sp p i = lattice_position sp p j"
  shows "lattice_slot p i = lattice_slot p j"
  using assms(2) lattice_coordinate_inj [OF assms(1)]
  by (auto simp add: lattice_position_def split: prod.splits)


lemma particles_per_side_root:
  assumes "0 \<le> n"
  shows "particles_per_side n = \<lceil>root 3 (of_int n)\<rceil>"
proof (cases "n = 0")
  case True
  then show ?thesis by (simp add: particles_per_side_def)
next
  case False
  with assms have "0 < (of_int n :: real)" by simp
  then show ?thesis
    using root_powr_inverse [of 3 "of_int n"] by (simp add: particles_per_side_def)
qed

subsection \<open>Claim C8: the initial lattice\<close>

text \<open>
  Claim C8. For a positive cell size \<open>L\<close> and a particle count \<open>n \<ge> 0\<close>, the
  constructor uses \<open>p = \<lceil>n\<^sup>1\<^sup>/\<^sup>3\<rceil>\<close> particles per side (the integer with
  \<open>(p - 1)\<^sup>3 < n \<le> p\<^sup>3\<close>) and the spacing \<open>sp = L / (p + 1)\<close>, and builds \<open>n\<close>
  positions: particle \<open>i\<close> sits at \<open>sp\<close> times its slot \<open>(ix, iy, iz)\<close> plus half a
  spacing, with \<open>i = ix + p \<cdot> iy + p\<^sup>2 \<cdot> iz\<close> and every slot index in \<open>[0, p)\<close>; each
  coordinate lies strictly between \<open>0\<close> and \<open>L\<close>; two different particles have
  different slots and different positions.
\<close>

theorem lattice_placement:
  assumes L: "0 < L" and n: "0 \<le> n"
    and p: "p = particles_per_side n"
    and sp: "sp = L / of_int (p + 1)"
    and s: "s = MDSimulation mt19937 random_vel L n"
  shows "p = \<lceil>root 3 (of_int n)\<rceil> \<and> (p - 1) ^ 3 < n \<and> n \<le> p ^ 3
       \<and> length (positions s) = nat n
       \<and> (\<forall>i < nat n.
             positions s ! i =
               (sp * of_int (int i mod p) + 0.5 * sp,
                sp * of_int ((int i div p) mod p) + 0.5 * sp,
                sp * of_int (int i div (p * p)) + 0.5 * sp)
           \<and> int i = int i mod p + p * ((int i div p) mod p) + p * p * (int i div (p * p))
           \<and> 0 \<le> int i mod p \<and> int i mod p < p
           \<and> 0 \<le> (int i div p) mod p \<and> (int i div p) mod p < p
           \<and> 0 \<le> int i div (p * p) \<and> int i div (p * p) < p
           \<and> 0 < vx (positions s ! i) \<and> vx (positions s ! i) < L
           \<and> 0 < vy (positions s ! i) \<and> vy (positions s ! i) < L
           \<and> 0 < vz (positions s ! i) \<and> vz (positions s ! i) < L)
       \<and> (\<forall>i < nat n. \<forall>j < nat n.
             i \<noteq> j \<longrightarrow> lattice_slot p i \<noteq> lattice_slot p j \<and> positions s ! i \<noteq> positions s ! j)"
proof -
  note b = particles_per_side_bounds [OF n, folded p]
  have root: "p = \<lceil>root 3 (of_int n)\<rceil>"
    unfolding p by (rule particles_per_side_root [OF n])
  have len: "length (positions s) = nat n"
    by (simp add: s MDSimulation_fields)
  have pos: "\<And>i. i < nat n \<Longrightarrow> positions s ! i = lattice_position sp p i"
    by (simp add: s MDSimulation_fields p sp)
  have each: "\<forall>i < nat n.
             positions s ! i =
               (sp * of_int (int i mod p) + 0.5 * sp,
                sp * of_int ((int i div p) mod p) + 0.5 * sp,
                sp * of_int (int i div (p * p)) + 0.5 * sp)
           \<and> int i = int i mod p + p * ((int i div p) mod p) + p * p * (int i div (p * p))
           \<and> 0 \<le> int i mod p \<and> int i mod p < p
           \<and> 0 \<le> (int i div p) mod p \<and> (int i div p) mod p < p
           \<and> 0 \<le> int i div (p * p) \<and> int i div (p * p) < p
           \<and> 0 < vx (positions s ! i) \<and> vx (positions s ! i) < L
           \<and> 0 < vy (positions s ! i) \<and> vy (positions s ! i) < L
           \<and> 0 < vz (positions s ! i) \<and> vz (positions s ! i) < L"
  proof (intro allI impI)
    fix i
    assume i: "i < nat n"
    then have "int i < n" by simp
    with b(3) have i3: "int i < p ^ 3" by simp
    have p0: "0 < p"
    proof (rule ccontr)
      assume "\<not> 0 < p"
      with b(1) have "p = 0" by simp
      with i3 show False by simp
    qed
    note sb = lattice_slot_bounds [OF p0 i3]
    have e: "positions s ! i =
               (sp * of_int (int i mod p) + 0.5 * sp,
                sp * of_int ((int i div p) mod p) + 0.5 * sp,
                sp * of_int (int i div (p * p)) + 0.5 * sp)"
      by (simp add: pos [OF i] lattice_position_def lattice_slot_def)
    note cx = lattice_coordinate_bounds [OF L p0 sb(1,2), folded sp]
    note cy = lattice_coordinate_bounds [OF L p0 sb(3,4), folded sp]
    note cz = lattice_coordinate_bounds [OF L p0 sb(5,6), folded sp]
    from cx cy cz have r: "0 < vx (positions s ! i) \<and> vx (positions s ! i) < L
           \<and> 0 < vy (positions s ! i) \<and> vy (positions s ! i) < L
           \<and> 0 < vz (positions s ! i) \<and> vz (positions s ! i) < L"
      unfolding e by simp
    from e sb r
    show "positions s ! i =
               (sp * of_int (int i mod p) + 0.5 * sp,
                sp * of_int ((int i div p) mod p) + 0.5 * sp,
                sp * of_int (int i div (p * p)) + 0.5 * sp)
           \<and> int i = int i mod p + p * ((int i div p) mod p) + p * p * (int i div (p * p))
           \<and> 0 \<le> int i mod p \<and> int i mod p < p
           \<and> 0 \<le> (int i div p) mod p \<and> (int i div p) mod p < p
           \<and> 0 \<le> int i div (p * p) \<and> int i div (p * p) < p
           \<and> 0 < vx (positions s ! i) \<and> vx (positions s ! i) < L
           \<and> 0 < vy (positions s ! i) \<and> vy (positions s ! i) < L
           \<and> 0 < vz (positions s ! i) \<and> vz (positions s ! i) < L"
      by blast
  qed
  have apart: "\<forall>i < nat n. \<forall>j < nat n.
             i \<noteq> j \<longrightarrow> lattice_slot p i \<noteq> lattice_slot p j \<and> positions s ! i \<noteq> positions s ! j"
  proof (intro allI impI)
    fix i j
    assume i: "i < nat n" and j: "j < nat n" and ij: "i \<noteq> j"
    from i j b(3) have i3: "int i < p ^ 3" "int j < p ^ 3" by simp_all
    have p0: "0 < p"
    proof (rule ccontr)
      assume "\<not> 0 < p"
      with b(1) have "p = 0" by simp
      with i3 show False by simp
    qed
    from L p0 have sp0: "0 < sp" by (simp add: sp)
    have slot: "lattice_slot p i \<noteq> lattice_slot p j"
      using lattice_slot_inj [OF p0 i3] ij by blast
    then have "positions s ! i \<noteq> positions s ! j"
      using lattice_position_inj [OF sp0, of p i j] by (auto simp add: pos [OF i] pos [OF j])
    with slot show "lattice_slot p i \<noteq> lattice_slot p j \<and> positions s ! i \<noteq> positions s ! j"
      by simp
  qed
  from root b(2,3) len each apart show ?thesis by blast
qed


theorem lattice_placement_witness:
  "(0 :: real) < 20 \<and> (0 :: int) \<le> 1000
   \<and> particles_per_side 1000 = 10
   \<and> length (positions (MDSimulation (\<lambda>seed. seed) (\<lambda>gen. (0, gen)) 20 1000)) = 1000
   \<and> positions (MDSimulation (\<lambda>seed. seed) (\<lambda>gen. (0, gen)) 20 1000) ! 0 = (10 / 11, 10 / 11, 10 / 11)
   \<and> positions (MDSimulation (\<lambda>seed. seed) (\<lambda>gen. (0, gen)) 20 1000) ! 123 = (70 / 11, 50 / 11, 30 / 11)
   \<and> positions (MDSimulation (\<lambda>seed. seed) (\<lambda>gen. (0, gen)) 20 1000) ! 999 = (190 / 11, 190 / 11, 190 / 11)
   \<and> positions (MDSimulation (\<lambda>seed. seed) (\<lambda>gen. (0, gen)) 20 1000) ! 0
       \<noteq> positions (MDSimulation (\<lambda>seed. seed) (\<lambda>gen. (0, gen)) 20 1000) ! 999"
proof -
  let ?s = "MDSimulation (\<lambda>seed :: int. seed) (\<lambda>gen. (0, gen)) 20 1000"
  have L: "(0 :: real) < 20" and n: "(0 :: int) \<le> 1000" by simp_all
  have p: "particles_per_side 1000 = 10"
    by (rule particles_per_side_unique) simp_all
  note h = lattice_placement [OF L n refl refl refl, of "\<lambda>seed :: int. seed" "\<lambda>gen. (0, gen)", unfolded p]
  from h have len: "length (positions ?s) = nat 1000" by (elim conjE)
  from h have each: "\<forall>i < nat 1000. positions ?s ! i =
               (20 / of_int (10 + 1) * of_int (int i mod 10) + 0.5 * (20 / of_int (10 + 1)),
                20 / of_int (10 + 1) * of_int ((int i div 10) mod 10) + 0.5 * (20 / of_int (10 + 1)),
                20 / of_int (10 + 1) * of_int (int i div (10 * 10)) + 0.5 * (20 / of_int (10 + 1)))"
    by blast
  from h have apart: "\<forall>i < nat 1000. \<forall>j < nat 1000.
      i \<noteq> j \<longrightarrow> positions ?s ! i \<noteq> positions ?s ! j"
    by blast
  have "positions ?s ! 0 = (10 / 11, 10 / 11, 10 / 11)"
    using each [rule_format, of 0] by simp
  moreover have "positions ?s ! 123 = (70 / 11, 50 / 11, 30 / 11)"
    using each [rule_format, of 123] by simp
  moreover have "positions ?s ! 999 = (190 / 11, 190 / 11, 190 / 11)"
    using each [rule_format, of 999] by simp
  moreover have "positions ?s ! 0 \<noteq> positions ?s ! 999"
    using apart [rule_format, of 0 999] by simp
  ultimately show ?thesis using p len by simp
qed

lemma seeded_velocity_range:
  assumes "\<forall>gen. - (1 / 2) \<le> fst (random_vel gen) \<and> fst (random_vel gen) < 1 / 2"
    and "c = vx \<or> c = vy \<or> c = vz"
  shows "- (1 / 2) \<le> c (seeded_velocity mt19937 random_vel i)
       \<and> c (seeded_velocity mt19937 random_vel i) < 1 / 2"
proof -
  obtain v0 g1 where d0: "random_vel (mt19937 (int i)) = (v0, g1)" by (cases "random_vel (mt19937 (int i))")
  obtain v1 g2 where d1: "random_vel g1 = (v1, g2)" by (cases "random_vel g1")
  obtain v2 g3 where d2: "random_vel g2 = (v2, g3)" by (cases "random_vel g2")
  have sv: "seeded_velocity mt19937 random_vel i = (v0, v1, v2)"
    by (simp add: seeded_velocity_def Let_def d0 d1 d2)
  from assms(1) [rule_format, of "mt19937 (int i)"] assms(1) [rule_format, of g1]
    assms(1) [rule_format, of g2] assms(2)
  show ?thesis unfolding sv by (auto simp add: d0 d1 d2)
qed

subsection \<open>Claim C9: the seeded velocities\<close>

text \<open>
  Claim C9. The constructor gives particle \<open>i\<close> the three numbers drawn, one after
  the other, from a generator constructed with seed \<open>i\<close>: the velocity of particle
  \<open>i\<close> depends on \<open>i\<close> only, so it is the same in every construction that has a
  particle \<open>i\<close> (whatever the cell size, the particle count and the other particles),
  and the constructor builds \<open>n\<close> velocities. If every number the distribution returns
  lies in \<open>[-0.5, 0.5)\<close>, which is what the C++ standard library documents for
  \<^verbatim>\<open>uniform_real_distribution<double>(-0.5, 0.5)\<close>, so does every velocity component.
\<close>

theorem seeded_velocities:
  assumes "\<forall>gen. - (1 / 2) \<le> fst (random_vel gen) \<and> fst (random_vel gen) < 1 / 2"
  shows "length (velocities (MDSimulation mt19937 random_vel L n)) = nat n
       \<and> (\<forall>i < nat n.
             velocities (MDSimulation mt19937 random_vel L n) ! i
               = (fst (random_vel (mt19937 (int i))),
                  fst (random_vel (snd (random_vel (mt19937 (int i))))),
                  fst (random_vel (snd (random_vel (snd (random_vel (mt19937 (int i)))))))))
       \<and> all_coordinates (\<lambda>v. - (1 / 2) \<le> v \<and> v < 1 / 2)
            (velocities (MDSimulation mt19937 random_vel L n))
       \<and> (\<forall>L' n'. \<forall>i < nat n. i < nat n' \<longrightarrow>
             velocities (MDSimulation mt19937 random_vel L' n') ! i
               = velocities (MDSimulation mt19937 random_vel L n) ! i)"
proof -
  have sv: "\<And>i. seeded_velocity mt19937 random_vel i
      = (fst (random_vel (mt19937 (int i))),
         fst (random_vel (snd (random_vel (mt19937 (int i))))),
         fst (random_vel (snd (random_vel (snd (random_vel (mt19937 (int i))))))))"
    by (simp add: seeded_velocity_def Let_def split_beta)
  have len: "length (velocities (MDSimulation mt19937 random_vel L n)) = nat n"
    by (simp add: MDSimulation_fields)
  have nth: "\<And>L n i. i < nat n \<Longrightarrow>
      velocities (MDSimulation mt19937 random_vel L n) ! i = seeded_velocity mt19937 random_vel i"
    by (simp add: MDSimulation_fields)
  have each: "\<forall>i < nat n.
             velocities (MDSimulation mt19937 random_vel L n) ! i
               = (fst (random_vel (mt19937 (int i))),
                  fst (random_vel (snd (random_vel (mt19937 (int i))))),
                  fst (random_vel (snd (random_vel (snd (random_vel (mt19937 (int i))))))))"
    using nth sv by simp
  have range: "all_coordinates (\<lambda>v. - (1 / 2) \<le> v \<and> v < 1 / 2)
            (velocities (MDSimulation mt19937 random_vel L n))"
    unfolding all_coordinates_def list_all_length len
    using seeded_velocity_range [OF assms, where c = vx and ?mt19937.0 = mt19937]
      seeded_velocity_range [OF assms, where c = vy and ?mt19937.0 = mt19937]
      seeded_velocity_range [OF assms, where c = vz and ?mt19937.0 = mt19937]
    by (simp add: nth)
  have same: "\<forall>L' n'. \<forall>i < nat n. i < nat n' \<longrightarrow>
             velocities (MDSimulation mt19937 random_vel L' n') ! i
               = velocities (MDSimulation mt19937 random_vel L n) ! i"
    by (simp add: nth)
  from len each range same show ?thesis by blast
qed

theorem seeded_velocities_witness:
  "(\<forall>gen :: nat. - (1 / 2) \<le> fst (real (gen mod 10) / 10 - 1 / 2, 7 * gen + 3)
                \<and> fst (real (gen mod 10) / 10 - 1 / 2, 7 * gen + 3) < 1 / 2)
   \<and> velocities (MDSimulation (\<lambda>seed. nat seed) (\<lambda>gen. (real (gen mod 10) / 10 - 1 / 2, 7 * gen + 3)) 20 1000) ! 2
       = (- 3 / 10, 2 / 10, - 3 / 10)
   \<and> velocities (MDSimulation (\<lambda>seed. nat seed) (\<lambda>gen. (real (gen mod 10) / 10 - 1 / 2, 7 * gen + 3)) 6 3) ! 2
       = (- 3 / 10, 2 / 10, - 3 / 10)"
proof -
  let ?rv = "\<lambda>gen :: nat. (real (gen mod 10) / 10 - 1 / 2, 7 * gen + 3)"
  have r: "\<forall>gen. - (1 / 2) \<le> fst (?rv gen) \<and> fst (?rv gen) < 1 / 2"
  proof
    fix gen :: nat
    have "gen mod 10 < 10" by simp
    then have "real (gen mod 10) < real 10" by (simp only: of_nat_less_iff)
    then have "real (gen mod 10) < 10" by simp
    then show "- (1 / 2) \<le> fst (?rv gen) \<and> fst (?rv gen) < 1 / 2" by simp
  qed
  note h = seeded_velocities [OF r, of "\<lambda>seed. nat seed" 20 1000]
  from h have each: "\<forall>i < nat 1000.
      velocities (MDSimulation (\<lambda>seed. nat seed) ?rv 20 1000) ! i
        = (fst (?rv (nat (int i))), fst (?rv (snd (?rv (nat (int i))))),
           fst (?rv (snd (?rv (snd (?rv (nat (int i)))))))) "
    by blast
  from h have same: "\<forall>L' n'. \<forall>i < nat 1000. i < nat n' \<longrightarrow>
             velocities (MDSimulation (\<lambda>seed. nat seed) ?rv L' n') ! i
               = velocities (MDSimulation (\<lambda>seed. nat seed) ?rv 20 1000) ! i"
    by blast
  have a: "velocities (MDSimulation (\<lambda>seed. nat seed) ?rv 20 1000) ! 2 = (- 3 / 10, 2 / 10, - 3 / 10)"
    using each [rule_format, of 2] by simp
  have b: "velocities (MDSimulation (\<lambda>seed. nat seed) ?rv 6 3) ! 2 = (- 3 / 10, 2 / 10, - 3 / 10)"
    using same [rule_format, of 2 3 6] a by simp
  from r a b show ?thesis by simp
qed

subsection \<open>Claim C4: the cutoff is not compared with the box size\<close>

text \<open>
  Claim C4, as amended. Nothing compares the cutoff radius with the box size: also
  when \<open>lj_cutoff\<close> exceeds half of \<open>L\<close>, the constructor builds the state with
  \<open>box_size = L\<close>, and \<^verbatim>\<open>run\<close> executes every one of its \<open>nsteps\<close> iterations, printing
  the block of iteration \<open>k\<close> for each \<open>k < nsteps\<close> and then the closing line.
\<close>

theorem run_without_validation:
  assumes "lj_cutoff g > L / 2"
  shows "box_size (MDSimulation mt19937 random_vel L n) = L
       \<and> length (snd (run nsteps dt (MDSimulation mt19937 random_vel L n))) = nat nsteps + 1
       \<and> (\<forall>k < nat nsteps. \<exists>pe ke.
             snd (run nsteps dt (MDSimulation mt19937 random_vel L n)) ! k
               = Iteration (int k) pe ke (pe + ke))
       \<and> last (snd (run nsteps dt (MDSimulation mt19937 random_vel L n))) = Simulation_completed"
  by (simp add: MDSimulation_fields run_output)

theorem run_without_validation_witness:
  "lj_cutoff plugin_globals_init > 4 / 2
   \<and> box_size (MDSimulation (\<lambda>seed. seed) (\<lambda>gen. (0, gen)) 4 2) = 4
   \<and> length (snd (run 100 (1 / 200) (MDSimulation (\<lambda>seed. seed) (\<lambda>gen. (0, gen)) 4 2))) = 101
   \<and> (\<exists>pe ke. snd (run 100 (1 / 200) (MDSimulation (\<lambda>seed. seed) (\<lambda>gen. (0, gen)) 4 2)) ! 99
          = Iteration 99 pe ke (pe + ke))"
proof -
  have c: "lj_cutoff plugin_globals_init > 4 / 2"
    by (simp add: plugin_globals_init_def)
  note h = run_without_validation [OF c, of "\<lambda>seed :: int. seed" "\<lambda>gen. (0, gen)" 2 100 "1 / 200"]
  from h have "\<forall>k < nat 100. \<exists>pe ke.
      snd (run 100 (1 / 200) (MDSimulation (\<lambda>seed :: int. seed) (\<lambda>gen. (0, gen)) 4 2)) ! k
        = Iteration (int k) pe ke (pe + ke)"
    by blast
  from this [rule_format, of 99] have "\<exists>pe ke.
      snd (run 100 (1 / 200) (MDSimulation (\<lambda>seed :: int. seed) (\<lambda>gen. (0, gen)) 4 2)) ! 99
        = Iteration 99 pe ke (pe + ke)"
    by simp
  with h c show ?thesis by simp
qed

text \<open>
  Claim C4 as stated asks that a cutoff above half the box size is rejected before
  any step runs. With \<open>box_size = 4\<close> and two particles the cutoff \<open>2.5\<close> exceeds
  \<open>4 / 2\<close>, and \<^verbatim>\<open>run(1, 0.005)\<close> executes and prints iteration \<open>0\<close>. (The generator here
  returns \<open>0\<close> for every draw, which makes the printed energies \<open>0\<close>.)
\<close>

theorem no_cutoff_validation_counterexample:
  "lj_cutoff plugin_globals_init > box_size (MDSimulation (\<lambda>seed. seed) (\<lambda>gen. (0, gen)) 4 2) / 2
   \<and> snd (run 1 (1 / 200) (MDSimulation (\<lambda>seed. seed) (\<lambda>gen. (0, gen)) 4 2))
       = [Iteration 0 0 0 0, Simulation_completed]"
proof -
  let ?s = "MDSimulation (\<lambda>seed :: int. seed) (\<lambda>gen. (0 :: real, gen)) 4 2"
  have s: "sized ?s" by (rule sized_MDSimulation)
  have v: "velocities ?s = [(0, 0, 0), (0, 0, 0)]"
    by (simp add: MDSimulation_fields upt_2 seeded_velocity_def)
  have "snd (run 1 (1 / 200) ?s) = snd (md_step (1 / 200) 0 (?s, [])) @ [Simulation_completed]"
    by (simp add: run_def Let_def)
  also have "snd (md_step (1 / 200) 0 (?s, [])) = [Iteration 0 0 0 0]"
    unfolding md_step_output by (simp add: md_step_fields [OF s] v)
  finally have "snd (run 1 (1 / 200) ?s) = [Iteration 0 0 0 0, Simulation_completed]"
    by simp
  then show ?thesis
    by (simp add: MDSimulation_fields plugin_globals_init_def)
qed

subsection \<open>Claim C1: the plugin call in an iteration\<close>

text \<open>
  Claim C1 asks that every iteration calls \<^verbatim>\<open>evaluate_forces\<close> and that the call
  writes the forces and the potential energy of the new positions. The source has a
  comment in place of the call, and \<^verbatim>\<open>evaluate_forces\<close> has a comment in place of its
  body. At the input of the program's \<^verbatim>\<open>main\<close>, \<^verbatim>\<open>MDSimulation(20.0, 1000)\<close> and
  \<^verbatim>\<open>run(100, 0.005)\<close>, the thousand forces are zero and the potential energy is zero
  after the run, and \<open>evaluate_forces\<close> returns what it was given, although the
  Lennard-Jones force between the lattice neighbours \<open>0\<close> and \<open>1\<close> of the initial
  positions is not zero.
\<close>

theorem forces_never_evaluated:
  "forces (fst (run 100 (1 / 200) (MDSimulation mt19937 random_vel 20 1000)))
     = replicate 1000 (0, 0, 0)
   \<and> potential_energy (fst (run 100 (1 / 200) (MDSimulation mt19937 random_vel 20 1000))) = 0
   \<and> evaluate_forces g state = (g, state)
   \<and> pair_force vx (fst (initialize plugin_globals_init state)) 20
        (positions (MDSimulation mt19937 random_vel 20 1000)) 0 1 \<noteq> 0"
proof -
  let ?s = "MDSimulation mt19937 random_vel 20 1000"
  have s: "sized ?s" by (rule sized_MDSimulation)
  have n: "nparticles ?s = 1000" by (simp add: MDSimulation_fields)
  have z: "forces (fst (run 100 (1 / 200) ?s)) = replicate 1000 (0, 0, 0)"
    "potential_energy (fst (run 100 (1 / 200) ?s)) = 0"
    using run_forces_zero [OF s, of 100 "1 / 200"] by (simp_all add: n)
  have p: "particles_per_side 1000 = 10"
    by (rule particles_per_side_unique) simp_all
  have p0: "positions ?s ! 0 = (10 / 11, 10 / 11, 10 / 11)"
    by (simp add: MDSimulation_fields p lattice_position_def lattice_slot_def)
  have p1: "positions ?s ! 1 = (30 / 11, 10 / 11, 10 / 11)"
    by (simp add: MDSimulation_fields p lattice_position_def lattice_slot_def)
  have d: "displacement 20 (positions ?s ! 0) (positions ?s ! 1) = (- 20 / 11, 0, 0)"
    unfolding p0 p1 by (simp add: displacement_def minimum_image_def)
  have "pair_force vx (fst (initialize plugin_globals_init state)) 20 (positions ?s) 0 1 \<noteq> 0"
    unfolding pair_force_def d
    by (simp add: squared_norm_def lj_force_with_cutoff_def initialize_def plugin_globals_init_def
          lj_force_def Let_def)
  with z show ?thesis by (simp add: evaluate_forces_def)
qed

section \<open>Claims that the rounding of \<^verbatim>\<open>double\<close> decides\<close>

text \<open>
  Claims C5, C6 and C10 say of numbers the program computes in \<^verbatim>\<open>double\<close> that two of
  them are exactly equal, that they lie in a half-open interval, or that their sum is
  exactly zero. In exact arithmetic each of the three holds, but the program rounds
  every operation, and it is the rounding that decides them; it is not part of this
  theory, which therefore states none of the three.

  \<^item> C5: with \<open>L = 20\<close> and \<open>d = 1 + 2\<^sup>-\<^sup>5\<^sup>2\<close>, the particles at \<open>x = 1 + 2\<^sup>-\<^sup>5\<^sup>2\<close> and
    \<open>x = 0\<close> get \<open>r2 = 1 + 2\<^sup>-\<^sup>5\<^sup>1\<close>; the particles at \<open>x = 2\<^sup>-\<^sup>5\<^sup>2\<close> and \<open>x = 19\<close>, which
    are exactly \<open>L - d\<close> apart, get \<open>r2 = 1\<close>, because \<open>2\<^sup>-\<^sup>5\<^sup>2 - 19\<close> is rounded to \<open>-19\<close>.
  \<^item> C6: with \<open>L = 20\<close>, the coordinate \<open>-2\<^sup>-\<^sup>7\<^sup>0\<close> plus \<open>20\<close> is rounded to \<open>20\<close> and then
    wrapped to \<open>0\<close>, not to \<open>L - 2\<^sup>-\<^sup>7\<^sup>0\<close>; the coordinate \<open>20 - 2\<^sup>-\<^sup>4\<^sup>8\<close> moved by one box
    length is rounded to \<open>40\<close> and wrapped to \<open>20\<close>, which is \<open>box_size\<close> itself.
  \<^item> C10: for three particles at \<open>x = 0\<close>, \<open>1.25\<close> and \<open>2.25\<close> (same \<open>y\<close> and \<open>z\<close>) in a
    box of \<open>20\<close>, the three \<open>x\<close> forces the pair loop leaves add up to \<open>3 / 2\<^sup>5\<^sup>1\<close>, since
    every \<^verbatim>\<open>+=\<close> on \<^verbatim>\<open>forces[i]\<close> is rounded.
\<close>

end
